theory Spec2Isabelle
  imports Complex_Main
begin

section \<open>Data model of trash\_placement.py\<close>

text \<open>
  Python floats are modelled as the reals: an arithmetic operation of the source is the
  exact operation on \<open>real\<close>, \<open>math.log10 v\<close> is \<open>log 10 v\<close>, \<open>10 ** u\<close> on floats is
  \<open>10 powr u\<close>, and \<open>v ** 3\<close> with the integer exponent is \<open>v ^ 3\<close>. Sizes, masses and target
  counts are thus the exact values that the doubles of the program approximate. Where the
  code compares a position with a computed bound, the edges of the boat's box, the
  operations that compute the bound are parameters of the model (\<open>float_ops\<close> below), so
  that what is proved of the comparison does not depend on how they round. The concrete
  runs use unit draws that are dyadic rationals and widths, heights and boxes for which
  the positions and the edges are computed exactly in doubles.
\<close>

datatype SizeClass = MICRO | MESO | MACRO | MEGA

datatype PlasticType = PT_H | PT_N | PT_P | PT_F

text \<open>The exceptions the code can raise: \<open>KeyError\<close> from a
  dictionary lookup, \<open>ValueError\<close> from \<open>np.random.choice\<close>, \<open>ZeroDivisionError\<close> from a
  float division, \<open>IndexError\<close> from indexing a sequence.\<close>

datatype error = KeyError | ValueError | ZeroDivisionError | IndexError

text \<open>\<open>size_ranges\<close>, in centimetres; every size class is a key.\<close>

fun size_ranges :: "SizeClass \<Rightarrow> real \<times> real" where
  "size_ranges MICRO = (0.05, 0.5)"
| "size_ranges MESO = (0.5, 5)"
| "size_ranges MACRO = (5, 50)"
| "size_ranges MEGA = (50, 200)"

text \<open>\<open>plastic_materials\<close>: the inner dictionaries of MACRO and MEGA lack some plastic
  types, so the lookup is partial.\<close>

fun plastic_materials :: "SizeClass \<Rightarrow> PlasticType \<Rightarrow> (string \<times> real) list option" where
  "plastic_materials MICRO PT_H = Some [(''PE'', 0.95), (''PP'', 0.05)]"
| "plastic_materials MICRO PT_N = Some [(''PE'', 0.50), (''PP'', 0.50)]"
| "plastic_materials MICRO PT_P = Some [(''PE'', 1.00)]"
| "plastic_materials MICRO PT_F = Some [(''PE'', 0.30), (''PS'', 0.60)]"
| "plastic_materials MESO PT_H = Some [(''PE'', 0.75), (''PP'', 0.25)]"
| "plastic_materials MESO PT_N = Some [(''PE'', 0.70), (''PP'', 0.30)]"
| "plastic_materials MESO PT_P = Some [(''PE'', 1.00)]"
| "plastic_materials MESO PT_F =
     Some [(''PE'', 0.40), (''PP'', 0.05), (''PS'', 0.40), (''PVC'', 0.10)]"
| "plastic_materials MACRO PT_H = Some [(''PE'', 0.55), (''PP'', 0.45)]"
| "plastic_materials MACRO PT_N = Some [(''PE'', 0.65), (''PP'', 0.35)]"
| "plastic_materials MACRO PT_P = None"
| "plastic_materials MACRO PT_F =
     Some [(''PE'', 0.50), (''PP'', 0.05), (''PS'', 0.15), (''PVC'', 0.10)]"
| "plastic_materials MEGA PT_H = Some [(''PE'', 0.60), (''PP'', 0.40)]"
| "plastic_materials MEGA PT_N = Some [(''PE'', 0.80), (''PP'', 0.10)]"
| "plastic_materials MEGA PT_P = None"
| "plastic_materials MEGA PT_F = None"

text \<open>\<open>material_densities\<close>, in kg/m^3.\<close>

definition material_densities :: "string \<Rightarrow> real option" where
  "material_densities m =
     (if m = ''PE'' then Some 920
      else if m = ''PP'' then Some 900.5
      else if m = ''PS'' then Some 1005
      else if m = ''PVC'' then Some 1005
      else None)"

text \<open>\<open>mean_plastic_concentration\<close>: (kg/km^2, pieces/km^2); every pair is a key.\<close>

fun mean_plastic_concentration :: "SizeClass \<Rightarrow> PlasticType \<Rightarrow> real \<times> real" where
  "mean_plastic_concentration MICRO PT_H = (2.33, 643930)"
| "mean_plastic_concentration MICRO PT_N = (0.041, 19873)"
| "mean_plastic_concentration MICRO PT_P = (0.13, 14362)"
| "mean_plastic_concentration MICRO PT_F = (0.001, 216)"
| "mean_plastic_concentration MESO PT_H = (3.68, 20993)"
| "mean_plastic_concentration MESO PT_N = (0.23, 803)"
| "mean_plastic_concentration MESO PT_P = (0.0003, 3.6)"
| "mean_plastic_concentration MESO PT_F = (0.003, 12)"
| "mean_plastic_concentration MACRO PT_H = (15.53, 640)"
| "mean_plastic_concentration MACRO PT_N = (1.27, 49)"
| "mean_plastic_concentration MACRO PT_P = (0, 0)"
| "mean_plastic_concentration MACRO PT_F = (0.021, 0.7)"
| "mean_plastic_concentration MEGA PT_H = (3.52, 0.3)"
| "mean_plastic_concentration MEGA PT_N = (42.82, 3.3)"
| "mean_plastic_concentration MEGA PT_P = (0, 0)"
| "mean_plastic_concentration MEGA PT_F = (0, 0)"

text \<open>\<open>total_mean_plastic_concentration = (69.58, 700,886)\<close> is a tuple of three
  components in Python; only component 0 is read.\<close>

definition total_mean_plastic_concentration :: "real \<times> real \<times> real" where
  "total_mean_plastic_concentration = (69.58, 700, 886)"

definition default_mean_scale :: real where
  "default_mean_scale = 100 / fst total_mean_plastic_concentration"

text \<open>The order in which \<open>for plastic_type in PlasticType\<close> iterates the enum.\<close>

definition all_plastic_types :: "PlasticType list" where
  "all_plastic_types = [PT_H, PT_N, PT_P, PT_F]"

definition all_size_classes :: "SizeClass list" where
  "all_size_classes = [MICRO, MESO, MACRO, MEGA]"

text \<open>The sum of the mass concentrations of all sixteen buckets, each multiplied by
  \<open>scale\<close>.\<close>

definition scaled_mass_concentration_sum :: "real \<Rightarrow> real" where
  "scaled_mass_concentration_sum scale =
     sum_list (map (\<lambda>sc. sum_list (map (\<lambda>pt. scale * fst (mean_plastic_concentration sc pt))
        all_plastic_types)) all_size_classes)"

text \<open>The dataclass \<open>Trash\<close>.\<close>

record Trash =
  trash_x :: real
  trash_y :: real
  trash_size :: real
  trash_mass :: real
  trash_density :: real
  trash_size_class :: SizeClass
  trash_plastic_type :: PlasticType

section \<open>The two random number generators\<close>

text \<open>
  The code draws from two module-level generators: Python's \<open>random\<close> and numpy's
  \<open>np.random\<close>. Each is modelled as an infinite tape of unit draws, the values that its
  underlying \<open>random()\<close> returns one after the other, with a cursor; seeding a generator
  fixes its tape and cursor. A unit draw is a real in the half-open interval from 0 to 1.
\<close>

typedef unit_draw = "{r :: real. 0 \<le> r \<and> r < 1}"
  by (rule exI [of _ 0]) simp

record rng =
  py_tape :: "nat \<Rightarrow> unit_draw"
  py_pos :: nat
  np_tape :: "nat \<Rightarrow> unit_draw"
  np_pos :: nat

text \<open>\<open>random.uniform(a, b)\<close> is \<open>a + (b - a) * random()\<close>.\<close>

definition random_uniform :: "real \<Rightarrow> real \<Rightarrow> rng \<Rightarrow> real \<times> rng" where
  "random_uniform a b g =
     (a + (b - a) * Rep_unit_draw (py_tape g (py_pos g)), g\<lparr>py_pos := Suc (py_pos g)\<rparr>)"

fun cumsum :: "real \<Rightarrow> real list \<Rightarrow> real list" where
  "cumsum acc [] = []"
| "cumsum acc (v # vs) = (acc + v) # cumsum (acc + v) vs"

text \<open>The tolerance of numpy's check that the probabilities sum to 1: the square root
  of the double precision machine epsilon \<open>2^-52\<close>.\<close>

definition choice_atol :: real where
  "choice_atol = 1 / 2 ^ 26"

text \<open>
  \<open>np.random.choice(a, p=p)\<close> for one sample: numpy raises \<open>ValueError\<close> when \<open>a\<close> is empty,
  when \<open>p\<close> has another length, when an entry of \<open>p\<close> is negative, and when the entries
  of \<open>p\<close> do not sum to 1 within the tolerance. Otherwise it draws one unit sample \<open>u\<close>,
  normalises the cumulative sums of \<open>p\<close> by their last entry and returns the element of
  \<open>a\<close> at \<open>searchsorted(cdf, u, side='right')\<close>, the number of entries of \<open>cdf\<close> that are
  at most \<open>u\<close>.
\<close>

definition np_random_choice :: "'a list \<Rightarrow> real list \<Rightarrow> rng \<Rightarrow> error + ('a \<times> rng)" where
  "np_random_choice a p g =
     (if a = [] \<or> length p \<noteq> length a then Inl ValueError
      else if list_ex (\<lambda>q. q < 0) p then Inl ValueError
      else if \<bar>sum_list p - 1\<bar> > choice_atol then Inl ValueError
      else
        let u = Rep_unit_draw (np_tape g (np_pos g));
            cdf = map (\<lambda>c. c / sum_list p) (cumsum 0 p);
            idx = length (filter (\<lambda>c. c \<le> u) cdf)
        in if idx < length a then Inr (a ! idx, g\<lparr>np_pos := Suc (np_pos g)\<rparr>)
           else Inl IndexError)"

section \<open>generate\_trash\<close>

text \<open>A result is \<open>None\<close> when the call never returns, \<open>Some (Inl e)\<close> when it raises
  \<open>e\<close>, and \<open>Some (Inr v)\<close> when it returns \<open>v\<close>.\<close>

type_synonym 'a result = "(error + 'a) option"

definition then_do :: "'a result \<Rightarrow> ('a \<Rightarrow> 'b result) \<Rightarrow> 'b result" where
  "then_do m f = (case m of None \<Rightarrow> None | Some (Inl e) \<Rightarrow> Some (Inl e) | Some (Inr v) \<Rightarrow> f v)"

fun for_each :: "('a \<Rightarrow> 's \<Rightarrow> 's result) \<Rightarrow> 'a list \<Rightarrow> 's \<Rightarrow> 's result" where
  "for_each body [] st = Some (Inr st)"
| "for_each body (v # vs) st = then_do (body v st) (for_each body vs)"

text \<open>\<open>pos_range\<close> and the pair of draws: \<open>random.uniform\<close> on the bounds
  \<open>pos_range[0]\<close>, then \<open>random.uniform\<close> on the bounds \<open>pos_range[1]\<close> (a tuple is
  evaluated left to right).\<close>

definition pos_range :: "real \<Rightarrow> real \<Rightarrow> bool \<Rightarrow> (real \<times> real) \<times> (real \<times> real)" where
  "pos_range W H centered =
     (if centered then ((- W / 2, W / 2), (- H / 2, H / 2)) else ((0, W), (0, H)))"

definition draw_pos :: "real \<Rightarrow> real \<Rightarrow> bool \<Rightarrow> rng \<Rightarrow> (real \<times> real) \<times> rng" where
  "draw_pos W H centered g =
     (let r = pos_range W H centered;
          (px, g1) = random_uniform (fst (fst r)) (snd (fst r)) g;
          (py, g2) = random_uniform (fst (snd r)) (snd (snd r)) g1
      in ((px, py), g2))"

text \<open>The edges of the boat's box, \<open>boat_pos[k] - boat_box[k]/2\<close> and
  \<open>boat_pos[k] + boat_box[k]/2\<close>, are computed in floating point, and the loop compares
  the position with the computed edges. The subtraction, the addition and the division
  that compute them are parameters of the model, so that what is proved of the loop
  condition holds of the rounded edges of doubles as it does of exact ones. \<open>exact_ops\<close>
  is real arithmetic.\<close>

record float_ops =
  f_sub :: "real \<Rightarrow> real \<Rightarrow> real"
  f_add :: "real \<Rightarrow> real \<Rightarrow> real"
  f_div :: "real \<Rightarrow> real \<Rightarrow> real"

definition exact_ops :: float_ops where
  "exact_ops = \<lparr>f_sub = (-), f_add = (+), f_div = (/)\<rparr>"

text \<open>The three operations are exact where a box of zero width or height needs them:
  \<open>0 / 2\<close> is 0, and subtracting or adding 0 changes nothing. Doubles have these
  properties.\<close>

definition exact_at_zero :: "float_ops \<Rightarrow> bool" where
  "exact_at_zero ops \<longleftrightarrow>
     f_div ops 0 2 = 0 \<and> (\<forall>b. f_sub ops b 0 = b) \<and> (\<forall>b. f_add ops b 0 = b)"

text \<open>The condition of the \<open>while\<close> loop: the position is strictly between the
  computed edges on both axes.\<close>

definition hits_boat :: "float_ops \<Rightarrow> real \<times> real \<Rightarrow> real \<times> real \<Rightarrow> real \<times> real \<Rightarrow> bool" where
  "hits_boat ops boat_pos boat_box pos =
     (f_sub ops (fst boat_pos) (f_div ops (fst boat_box) 2) < fst pos
      \<and> fst pos < f_add ops (fst boat_pos) (f_div ops (fst boat_box) 2)
      \<and> f_sub ops (snd boat_pos) (f_div ops (snd boat_box) 2) < snd pos
      \<and> snd pos < f_add ops (snd boat_pos) (f_div ops (snd boat_box) 2))"

text \<open>The \<open>while\<close> loop that redraws the position has no bound: it need not end.\<close>

partial_function (option) avoid_boat ::
  "float_ops \<Rightarrow> real \<Rightarrow> real \<Rightarrow> bool \<Rightarrow> real \<times> real \<Rightarrow> real \<times> real \<Rightarrow> real \<times> real \<Rightarrow> rng
     \<Rightarrow> ((real \<times> real) \<times> rng) option" where
  "avoid_boat ops W H centered boat_pos boat_box pos g =
     (if hits_boat ops boat_pos boat_box pos
      then (case draw_pos W H centered g of (pos', g') \<Rightarrow>
              avoid_boat ops W H centered boat_pos boat_box pos' g')
      else Some (pos, g))"

text \<open>The body of \<open>for i in range(n_pieces)\<close>: the state is the list \<open>pieces\<close>, the
  accumulator \<open>total_mass_proportion\<close> and the generators.\<close>

definition gen_piece ::
  "float_ops \<Rightarrow> real \<Rightarrow> real \<Rightarrow> real \<times> real \<Rightarrow> real \<times> real \<Rightarrow> bool \<Rightarrow> SizeClass \<Rightarrow> PlasticType
     \<Rightarrow> Trash list \<times> real \<times> rng \<Rightarrow> (Trash list \<times> real \<times> rng) result" where
  "gen_piece ops W H boat_pos boat_box centered sc pt st =
     (case st of (pieces, total_mass_proportion, g) \<Rightarrow>
      (case draw_pos W H centered g of (pos0, g1) \<Rightarrow>
       (case avoid_boat ops W H centered boat_pos boat_box pos0 g1 of
          None \<Rightarrow> None
        | Some (pos, g2) \<Rightarrow>
           (case random_uniform (log 10 (fst (size_ranges sc))) (log 10 (snd (size_ranges sc))) g2
            of (u, g3) \<Rightarrow>
             let sz = 10 powr u / 100 in
             (case plastic_materials sc pt of
                None \<Rightarrow> Some (Inl KeyError)
              | Some mats \<Rightarrow>
                 let possible_materials = map fst mats;
                     material_probabilities = map snd mats;
                     normalised = map (\<lambda>q. q / sum_list material_probabilities)
                                    material_probabilities
                 in (case np_random_choice possible_materials normalised g3 of
                       Inl e \<Rightarrow> Some (Inl e)
                     | Inr (material, g4) \<Rightarrow>
                        (case material_densities material of
                           None \<Rightarrow> Some (Inl KeyError)
                         | Some d \<Rightarrow>
                            Some (Inr (pieces @
                               [\<lparr>trash_x = fst pos, trash_y = snd pos, trash_size = sz,
                                 trash_mass = 0, trash_density = d, trash_size_class = sc,
                                 trash_plastic_type = pt\<rparr>],
                               total_mass_proportion + d * sz ^ 3, g4)))))))))"

fun gen_pieces ::
  "float_ops \<Rightarrow> nat \<Rightarrow> real \<Rightarrow> real \<Rightarrow> real \<times> real \<Rightarrow> real \<times> real \<Rightarrow> bool \<Rightarrow> SizeClass \<Rightarrow> PlasticType
     \<Rightarrow> Trash list \<times> real \<times> rng \<Rightarrow> (Trash list \<times> real \<times> rng) result" where
  "gen_pieces ops 0 W H boat_pos boat_box centered sc pt st = Some (Inr st)"
| "gen_pieces ops (Suc k) W H boat_pos boat_box centered sc pt st =
     then_do (gen_piece ops W H boat_pos boat_box centered sc pt st)
       (gen_pieces ops k W H boat_pos boat_box centered sc pt)"

text \<open>The second pass, \<open>for i in range(len(pieces) - n_pieces, len(pieces))\<close>, which
  overwrites the mass of \<open>pieces[i]\<close>. The loop before it has appended \<open>n_pieces\<close>
  entries, so the lower end of the range is never negative (lemma \<open>gen_pieces_appends\<close>);
  and when the range is not empty the divisor \<open>total_mass_proportion\<close> is positive (lemma
  \<open>sum_list_weights_pos\<close>).\<close>

definition set_mass :: "real \<Rightarrow> real \<Rightarrow> Trash \<Rightarrow> Trash" where
  "set_mass total_mass total_mass_proportion t =
     t\<lparr>trash_mass := total_mass * (trash_density t * trash_size t ^ 3) / total_mass_proportion\<rparr>"

definition assign_masses :: "real \<Rightarrow> real \<Rightarrow> nat \<Rightarrow> Trash list \<Rightarrow> Trash list" where
  "assign_masses total_mass total_mass_proportion n pieces =
     foldl (\<lambda>ps i. ps[i := set_mass total_mass total_mass_proportion (ps ! i)])
       pieces [length pieces - n ..< length pieces]"

text \<open>The real-valued target count and target mass of a bucket.\<close>

definition bucket_n_pieces :: "real \<Rightarrow> real \<Rightarrow> real \<Rightarrow> SizeClass \<Rightarrow> PlasticType \<Rightarrow> real" where
  "bucket_n_pieces W H mean_scale sc pt =
     mean_scale * snd (mean_plastic_concentration sc pt) * (W / 1000) * (H / 1000)"

definition bucket_total_mass :: "real \<Rightarrow> real \<Rightarrow> real \<Rightarrow> SizeClass \<Rightarrow> PlasticType \<Rightarrow> real" where
  "bucket_total_mass W H mean_scale sc pt =
     mean_scale * fst (mean_plastic_concentration sc pt) * (W / 1000) * (H / 1000)"

text \<open>The rounding of the target count: \<open>np.random.choice\<close> between floor and ceiling.\<close>

definition round_n_pieces :: "real \<Rightarrow> rng \<Rightarrow> error + (int \<times> rng)" where
  "round_n_pieces n_pieces g =
     np_random_choice [\<lfloor>n_pieces\<rfloor>, \<lceil>n_pieces\<rceil>]
       [1 - (n_pieces - of_int \<lfloor>n_pieces\<rfloor>), 1 - (of_int \<lceil>n_pieces\<rceil> - n_pieces)] g"

text \<open>The body of the two nested \<open>for\<close> loops, for one size class and one plastic
  type.\<close>

definition gen_bucket ::
  "float_ops \<Rightarrow> real \<Rightarrow> real \<Rightarrow> real \<times> real \<Rightarrow> real \<times> real \<Rightarrow> bool \<Rightarrow> real \<Rightarrow> SizeClass \<Rightarrow> PlasticType
     \<Rightarrow> Trash list \<times> rng \<Rightarrow> (Trash list \<times> rng) result" where
  "gen_bucket ops W H boat_pos boat_box centered mean_scale sc pt st =
     (case st of (pieces, g) \<Rightarrow>
      let total_mass = bucket_total_mass W H mean_scale sc pt;
          n_pieces = bucket_n_pieces W H mean_scale sc pt
      in if n_pieces > 0 then
           let avg_mass_per_piece = total_mass / n_pieces in
           (case round_n_pieces n_pieces g of
              Inl e \<Rightarrow> Some (Inl e)
            | Inr (n, g1) \<Rightarrow>
               let total_mass' = avg_mass_per_piece * of_int n in
               then_do (gen_pieces ops (nat n) W H boat_pos boat_box centered sc pt (pieces, 0, g1))
                 (\<lambda>(pieces', total_mass_proportion, g2).
                    Some (Inr (assign_masses total_mass' total_mass_proportion (nat n) pieces',
                               g2))))
         else Some (Inr (pieces, g)))"

section \<open>The example path\<close>

text \<open>The inner loop that adds up \<open>material_densities[material[0]] * material[1]\<close>.\<close>

fun weighted_density :: "(string \<times> real) list \<Rightarrow> real \<Rightarrow> error + real" where
  "weighted_density [] acc = Inr acc"
| "weighted_density (m # ms) acc =
     (case material_densities (fst m) of
        None \<Rightarrow> Inl KeyError
      | Some d \<Rightarrow> weighted_density ms (acc + d * snd m))"

text \<open>The keys of \<open>plastic_materials\<close>, in the order the nested loops visit them.\<close>

definition material_keys :: "(SizeClass \<times> PlasticType) list" where
  "material_keys =
     concat (map (\<lambda>sc. map (Pair sc) (filter (\<lambda>pt. plastic_materials sc pt \<noteq> None)
        all_plastic_types)) all_size_classes)"

fun build_avg_density ::
  "(SizeClass \<times> PlasticType) list \<Rightarrow> (SizeClass \<times> PlasticType \<Rightarrow> real option)
     \<Rightarrow> error + (SizeClass \<times> PlasticType \<Rightarrow> real option)" where
  "build_avg_density [] tab = Inr tab"
| "build_avg_density (k # ks) tab =
     (case plastic_materials (fst k) (snd k) of
        None \<Rightarrow> Inl KeyError
      | Some mats \<Rightarrow>
         (case weighted_density mats 0 of
            Inl e \<Rightarrow> Inl e
          | Inr d \<Rightarrow> build_avg_density ks (tab(k \<mapsto> d))))"

definition example_piece :: "real \<Rightarrow> real \<Rightarrow> real \<Rightarrow> Trash" where
  "example_piece px py sz =
     \<lparr>trash_x = px, trash_y = py, trash_size = sz, trash_mass = 0, trash_density = 0,
      trash_size_class = MEGA, trash_plastic_type = PT_N\<rparr>"

definition example_pieces :: "Trash list" where
  "example_pieces =
     [example_piece (100 + 0) 16 0.75,
      example_piece (100 + 10) 100 0.75,
      example_piece (100 - 10) 100 0.75,
      example_piece (100 + 15) 130 1.00,
      example_piece (100 - 12) 170 0.75,
      example_piece (100 + 15) 210 2.50,
      example_piece (100 + 0) 240 0.50]"

text \<open>\<open>avg_vol_per_piece\<close> as the code computes it for a size class. The two bounds of
  every size class are positive and differ, so \<open>math.log10\<close> is defined and the divisor
  \<open>max_log_size - min_log_size\<close> is not zero.\<close>

definition avg_vol_per_piece :: "SizeClass \<Rightarrow> real" where
  "avg_vol_per_piece sc =
     (let min_log_size = log 10 (fst (size_ranges sc) / 100);
          max_log_size = log 10 (snd (size_ranges sc) / 100)
      in 1 / (max_log_size - min_log_size)
           * ((10 ^ 3) powr max_log_size - (10 ^ 3) powr min_log_size) / log 10 (10 ^ 3))"

text \<open>The body of \<open>for piece in pieces\<close>. Dividing a Python float by zero raises
  \<open>ZeroDivisionError\<close>.\<close>

definition example_fill ::
  "real \<Rightarrow> real \<Rightarrow> real \<Rightarrow> (SizeClass \<times> PlasticType \<Rightarrow> real option) \<Rightarrow> Trash \<Rightarrow> error + Trash" where
  "example_fill W H mean_scale avg_density piece =
     (let sc = trash_size_class piece; pt = trash_plastic_type piece;
          total_mass_for_type = bucket_total_mass W H mean_scale sc pt;
          n_pieces_for_type = bucket_n_pieces W H mean_scale sc pt;
          total_vol = avg_vol_per_piece sc * n_pieces_for_type;
          piece_vol = trash_size piece ^ 3
      in if total_vol = 0 then Inl ZeroDivisionError
         else (case avg_density (sc, pt) of
                 None \<Rightarrow> Inl KeyError
               | Some d \<Rightarrow>
                  Inr (piece\<lparr>trash_mass := piece_vol / total_vol * total_mass_for_type,
                             trash_density := d\<rparr>)))"

fun example_loop ::
  "real \<Rightarrow> real \<Rightarrow> real \<Rightarrow> (SizeClass \<times> PlasticType \<Rightarrow> real option) \<Rightarrow> Trash list
     \<Rightarrow> error + Trash list" where
  "example_loop W H mean_scale avg_density [] = Inr []"
| "example_loop W H mean_scale avg_density (piece # rest) =
     (case example_fill W H mean_scale avg_density piece of
        Inl e \<Rightarrow> Inl e
      | Inr piece' \<Rightarrow>
         (case example_loop W H mean_scale avg_density rest of
            Inl e \<Rightarrow> Inl e
          | Inr rest' \<Rightarrow> Inr (piece' # rest')))"

section \<open>The entry point\<close>

definition generate_trash ::
  "float_ops \<Rightarrow> real \<Rightarrow> real \<Rightarrow> real \<times> real \<Rightarrow> real \<times> real \<Rightarrow> bool \<Rightarrow> real \<Rightarrow> SizeClass list \<Rightarrow> bool \<Rightarrow> rng
     \<Rightarrow> (Trash list \<times> rng) result" where
  "generate_trash ops W H boat_pos boat_box centered mean_scale relevant_size_classes
       use_example g =
     (if use_example then
        (case build_avg_density material_keys Map.empty of
           Inl e \<Rightarrow> Some (Inl e)
         | Inr avg_density \<Rightarrow>
            (case example_loop W H mean_scale avg_density example_pieces of
               Inl e \<Rightarrow> Some (Inl e)
             | Inr pieces \<Rightarrow> Some (Inr (pieces, g))))
      else
        for_each
          (\<lambda>sc. for_each
             (gen_bucket ops W H boat_pos boat_box centered mean_scale sc) all_plastic_types)
          relevant_size_classes ([], g))"

section \<open>A concrete generator state\<close>

text \<open>A state of the two generators whose every unit draw is 1/2, to run the
  definitions on.\<close>

definition half_draw :: unit_draw where
  "half_draw = Abs_unit_draw (1 / 2)"

definition fixed_rng :: rng where
  "fixed_rng = \<lparr>py_tape = (\<lambda>i. half_draw), py_pos = 0, np_tape = (\<lambda>i. half_draw), np_pos = 0\<rparr>"


text \<open>A state whose first two draws of Python's generator are 0 and whose other draws are
  1/2: with the boat's box around the origin, the first position drawn is rejected.\<close>

definition zero_draw :: unit_draw where
  "zero_draw = Abs_unit_draw 0"

definition rejecting_rng :: rng where
  "rejecting_rng =
     \<lparr>py_tape = (\<lambda>i. if i < 2 then zero_draw else half_draw), py_pos = 0,
      np_tape = (\<lambda>i. half_draw), np_pos = 0\<rparr>"

section \<open>Predicates of the statements\<close>

text \<open>The position of a piece is not strictly inside the boat's box on both axes.\<close>

definition outside_boat :: "float_ops \<Rightarrow> real \<times> real \<Rightarrow> real \<times> real \<Rightarrow> Trash \<Rightarrow> bool" where
  "outside_boat ops boat_pos boat_box t \<longleftrightarrow>
     \<not> hits_boat ops boat_pos boat_box (trash_x t, trash_y t)"

text \<open>The position that \<open>draw_pos\<close> computes from the unit draws at positions \<open>i\<close> and
  \<open>i + 1\<close> of the tape of Python's generator.\<close>

definition pos_at :: "real \<Rightarrow> real \<Rightarrow> bool \<Rightarrow> (nat \<Rightarrow> unit_draw) \<Rightarrow> nat \<Rightarrow> real \<times> real" where
  "pos_at W H centered tape i =
     (let r = pos_range W H centered
      in (fst (fst r) + (snd (fst r) - fst (fst r)) * Rep_unit_draw (tape i),
          fst (snd r) + (snd (snd r) - fst (snd r)) * Rep_unit_draw (tape (Suc i))))"

text \<open>The size in metres that the code computes from the unit draw at position \<open>i\<close> of the
  tape: \<open>10 ** random.uniform(log10(min), log10(max)) / 100\<close>.\<close>

definition size_at :: "SizeClass \<Rightarrow> (nat \<Rightarrow> unit_draw) \<Rightarrow> nat \<Rightarrow> real" where
  "size_at sc tape i =
     10 powr (log 10 (fst (size_ranges sc))
               + (log 10 (snd (size_ranges sc)) - log 10 (fst (size_ranges sc)))
                 * Rep_unit_draw (tape i)) / 100"

text \<open>The piece \<open>t\<close> has its position from the draws at \<open>i\<close> and \<open>i + 1\<close> and its size from the
  draw at \<open>i + 2\<close>.\<close>

definition drawn_at :: "real \<Rightarrow> real \<Rightarrow> bool \<Rightarrow> (nat \<Rightarrow> unit_draw) \<Rightarrow> nat \<Rightarrow> Trash \<Rightarrow> bool" where
  "drawn_at W H centered tape i t \<longleftrightarrow>
     (trash_x t, trash_y t) = pos_at W H centered tape i
     \<and> trash_size t = size_at (trash_size_class t) tape (i + 2)"

text \<open>The pieces of the list were drawn one after the other: their draws sit at strictly
  increasing positions of the tape, all consumed before the cursor reaches \<open>bound\<close>.\<close>

definition drawn_in_order ::
  "real \<Rightarrow> real \<Rightarrow> bool \<Rightarrow> (nat \<Rightarrow> unit_draw) \<Rightarrow> nat \<Rightarrow> Trash list \<Rightarrow> bool" where
  "drawn_in_order W H centered tape bound pieces \<longleftrightarrow>
     (\<exists>ixs. list_all2 (drawn_at W H centered tape) ixs pieces
          \<and> sorted_wrt (<) ixs \<and> list_all (\<lambda>i. i + 3 \<le> bound) ixs)"

text \<open>The bucket of a piece.\<close>

definition piece_key :: "Trash \<Rightarrow> SizeClass \<times> PlasticType" where
  "piece_key t = (trash_size_class t, trash_plastic_type t)"

text \<open>The buckets in the order the two nested loops visit them.\<close>

definition bucket_order :: "SizeClass list \<Rightarrow> (SizeClass \<times> PlasticType) list" where
  "bucket_order relevant_size_classes =
     concat (map (\<lambda>sc. map (Pair sc) all_plastic_types) relevant_size_classes)"

text \<open>The mean volume of a piece in the words of the specification, to compare the code
  with: the size is \<open>10 ** u\<close> metres with \<open>u\<close> uniform between the base 10 logarithms of
  the bounds of the size class, so the mean of \<open>size^3\<close> is the integral of \<open>(10 ** u)^3\<close>
  over that interval divided by its length. \<open>volume_antiderivative\<close> is an antiderivative
  of \<open>(10 ** u)^3\<close> (lemma \<open>volume_antiderivative_deriv\<close>), and the integral is the
  difference of its values at the two ends.\<close>

definition volume_antiderivative :: "real \<Rightarrow> real" where
  "volume_antiderivative u = (10 powr u) ^ 3 / (3 * ln 10)"

definition spec_mean_volume :: "SizeClass \<Rightarrow> real" where
  "spec_mean_volume sc =
     (let min_log_size = log 10 (fst (size_ranges sc) / 100);
          max_log_size = log 10 (snd (size_ranges sc) / 100)
      in (volume_antiderivative max_log_size - volume_antiderivative min_log_size)
           / (max_log_size - min_log_size))"

text \<open>A piece of the example with the mass and the density the example path gives it.\<close>

definition example_result :: "real \<times> real \<times> real \<Rightarrow> Trash" where
  "example_result p =
     (case p of (px, py, sz) \<Rightarrow>
        \<lparr>trash_x = px, trash_y = py, trash_size = sz,
         trash_mass = sz ^ 3 * (34256 / 3465) * log 10 2, trash_density = 826.05,
         trash_size_class = MEGA, trash_plastic_type = PT_N\<rparr>)"

text \<open>Two states of the generators deliver the same draws: from their cursors on, the
  tapes of Python's generator agree, and so do the tapes of numpy's. Two generators seeded
  alike are in such states.\<close>

definition same_draws :: "rng \<Rightarrow> rng \<Rightarrow> bool" where
  "same_draws g h \<longleftrightarrow>
     (\<forall>i. py_tape g (py_pos g + i) = py_tape h (py_pos h + i))
     \<and> (\<forall>i. np_tape g (np_pos g + i) = np_tape h (np_pos h + i))"


text \<open>Two results agree: both calls do not return, or raise the same exception, or return
  values related by \<open>R\<close>. The loop states are related when they hold the same pieces (and
  accumulator) and generators that deliver the same draws.\<close>

definition res_rel :: "('a \<Rightarrow> 'a \<Rightarrow> bool) \<Rightarrow> 'a result \<Rightarrow> 'a result \<Rightarrow> bool" where
  "res_rel R = rel_option (rel_sum (=) R)"




text \<open>States whose draws vary: Python's generator delivers 1/2, 1/4, 1/8, ... and
  numpy's delivers 127/128 at every draw; the cursors are at \<open>a\<close> and \<open>b\<close>.\<close>

definition dyadic_draw :: "nat \<Rightarrow> unit_draw" where
  "dyadic_draw i = Abs_unit_draw (1 / 2 ^ Suc i)"

definition high_draw :: unit_draw where
  "high_draw = Abs_unit_draw (127 / 128)"

definition dyadic_rng :: "nat \<Rightarrow> nat \<Rightarrow> rng" where
  "dyadic_rng a b =
     \<lparr>py_tape = dyadic_draw, py_pos = a, np_tape = (\<lambda>i. high_draw), np_pos = b\<rparr>"

section \<open>The default scale\<close>

text \<open>C9, as stated: the default scale makes the scaled bucket mass concentrations sum to
  exactly 100 kg/km^2. This fails: the bucket entries sum to 69.5763, while the default
  scale divides by the tabulated total 69.58.\<close>

theorem default_scale_sum_not_100:
  "scaled_mass_concentration_sum default_mean_scale \<noteq> 100"
  by (simp add: scaled_mass_concentration_sum_def default_mean_scale_def
      total_mean_plastic_concentration_def all_plastic_types_def all_size_classes_def)

text \<open>C9, amended: the default scale is 100 divided by the tabulated total mean mass
  concentration, 69.58 kg/km^2; the sixteen bucket mass concentrations sum to
  69.5763 kg/km^2, so scaled by the default they sum to 6957630/69580 kg/km^2
  (about 99.995), not to 100.\<close>

theorem default_scale_value:
  "default_mean_scale = 100 / fst total_mean_plastic_concentration
   \<and> fst total_mean_plastic_concentration = 69.58
   \<and> scaled_mass_concentration_sum 1 = 69.5763
   \<and> scaled_mass_concentration_sum default_mean_scale = 69.5763 * 100 / 69.58"
  by (simp add: scaled_mass_concentration_sum_def default_mean_scale_def
      total_mean_plastic_concentration_def all_plastic_types_def all_size_classes_def)

section \<open>Basic facts about the loops\<close>

lemma then_do_simps [simp]:
  "then_do None f = None"
  "then_do (Some (Inl e)) f = Some (Inl e)"
  "then_do (Some (Inr v)) f = f v"
  by (simp_all add: then_do_def)

lemma then_do_eq_Some_Inr:
  "then_do m f = Some (Inr r) \<longleftrightarrow> (\<exists>v. m = Some (Inr v) \<and> f v = Some (Inr r))"
  by (auto simp: then_do_def split: option.splits sum.splits)

lemma Rep_unit_draw_bounds: "0 \<le> Rep_unit_draw r" "Rep_unit_draw r < 1"
  using Rep_unit_draw [of r] by simp_all

lemma material_densities_pos: "material_densities m = Some d \<Longrightarrow> 0 < d"
  by (auto simp: material_densities_def split: if_splits)

lemma avoid_boat_not_hit_aux:
  assumes "avoid_boat ops W H centered boat_pos boat_box pos g = Some r"
  shows "\<not> hits_boat ops boat_pos boat_box (fst r)"
  by (rule avoid_boat.raw_induct
        [where P = "\<lambda>ops W H centered boat_pos boat_box pos g r. \<not> hits_boat ops boat_pos boat_box (fst r)",
         OF _ assms])
     (auto split: if_splits prod.splits)

lemma avoid_boat_not_hit:
  "avoid_boat ops W H centered boat_pos boat_box pos g = Some (p, g')
     \<Longrightarrow> \<not> hits_boat ops boat_pos boat_box p"
  by (drule avoid_boat_not_hit_aux) simp

lemma gen_piece_appends:
  assumes "gen_piece ops W H boat_pos boat_box centered sc pt (pieces, tmp, g)
             = Some (Inr (pieces', tmp', g'))"
  shows "\<exists>t. pieces' = pieces @ [t] \<and> tmp' = tmp + trash_density t * trash_size t ^ 3
            \<and> trash_mass t = 0 \<and> trash_size_class t = sc \<and> trash_plastic_type t = pt
            \<and> 0 < trash_density t \<and> 0 < trash_size t"
  using assms
  by (auto simp: gen_piece_def Let_def split: prod.splits option.splits sum.splits
      dest: material_densities_pos)

lemma gen_pieces_appends:
  "gen_pieces ops k W H boat_pos boat_box centered sc pt (pieces, tmp, g)
     = Some (Inr (pieces', tmp', g'))
   \<Longrightarrow> \<exists>new. pieces' = pieces @ new \<and> length new = k
         \<and> tmp' = tmp + (\<Sum>t\<leftarrow>new. trash_density t * trash_size t ^ 3)
         \<and> (\<forall>t\<in>set new. trash_mass t = 0 \<and> trash_size_class t = sc
               \<and> trash_plastic_type t = pt \<and> 0 < trash_density t \<and> 0 < trash_size t)"
proof (induction k arbitrary: pieces tmp g)
  case 0
  then show ?case by simp
next
  case (Suc k)
  from Suc.prems obtain ps1 tmp1 g1 where
    step: "gen_piece ops W H boat_pos boat_box centered sc pt (pieces, tmp, g)
             = Some (Inr (ps1, tmp1, g1))"
    and rest: "gen_pieces ops k W H boat_pos boat_box centered sc pt (ps1, tmp1, g1)
             = Some (Inr (pieces', tmp', g'))"
    by (auto simp: then_do_eq_Some_Inr)
  from gen_piece_appends [OF step] obtain t where
    t: "ps1 = pieces @ [t]" "tmp1 = tmp + trash_density t * trash_size t ^ 3"
       "trash_mass t = 0" "trash_size_class t = sc" "trash_plastic_type t = pt"
       "0 < trash_density t" "0 < trash_size t"
    by blast
  from Suc.IH [OF rest] obtain new where
    new: "pieces' = ps1 @ new" "length new = k"
         "tmp' = tmp1 + (\<Sum>t\<leftarrow>new. trash_density t * trash_size t ^ 3)"
         "\<forall>t\<in>set new. trash_mass t = 0 \<and> trash_size_class t = sc
               \<and> trash_plastic_type t = pt \<and> 0 < trash_density t \<and> 0 < trash_size t"
    by blast
  show ?case
    by (rule exI [of _ "t # new"]) (use t new in simp)
qed

lemma np_random_choice_Inr:
  "np_random_choice a p g = Inr (v, g') \<Longrightarrow> v \<in> set a \<and> g' = g\<lparr>np_pos := Suc (np_pos g)\<rparr>"
  by (auto simp: np_random_choice_def Let_def split: if_splits)

lemma round_n_pieces_Inr:
  "round_n_pieces n_pieces g = Inr (n, g')
     \<Longrightarrow> (n = \<lfloor>n_pieces\<rfloor> \<or> n = \<lceil>n_pieces\<rceil>) \<and> g' = g\<lparr>np_pos := Suc (np_pos g)\<rparr>"
  unfolding round_n_pieces_def by (drule np_random_choice_Inr) auto

lemma foldl_update_length:
  "length (foldl (\<lambda>ps i. ps[i := f (ps ! i)]) xs is) = length xs"
  by (induction "is" arbitrary: xs) simp_all

lemma foldl_update_range_nth:
  "b \<le> length xs \<Longrightarrow> i < length xs \<Longrightarrow>
   foldl (\<lambda>ps i. ps[i := f (ps ! i)]) xs [a ..< b] ! i
     = (if a \<le> i \<and> i < b then f (xs ! i) else xs ! i)"
proof (induction b)
  case 0
  then show ?case by simp
next
  case (Suc b)
  show ?case
  proof (cases "a \<le> b")
    case True
    with Suc show ?thesis
      by (auto simp: foldl_update_length nth_list_update)
  next
    case False
    then show ?thesis by auto
  qed
qed

lemma assign_masses_append:
  "assign_masses total_mass w (length new) (old @ new)
     = old @ map (set_mass total_mass w) new"
proof (rule nth_equalityI)
  show "length (assign_masses total_mass w (length new) (old @ new))
          = length (old @ map (set_mass total_mass w) new)"
    by (simp add: assign_masses_def foldl_update_length)
next
  fix i
  assume "i < length (assign_masses total_mass w (length new) (old @ new))"
  then have i: "i < length (old @ new)"
    by (simp add: assign_masses_def foldl_update_length)
  then show "assign_masses total_mass w (length new) (old @ new) ! i
          = (old @ map (set_mass total_mass w) new) ! i"
    by (auto simp: assign_masses_def foldl_update_range_nth nth_append)
qed

lemma concentration_nonneg: "0 \<le> snd (mean_plastic_concentration sc pt)"
  by (cases sc; cases pt) simp_all

lemma concentration_mass_pos:
  "0 < snd (mean_plastic_concentration sc pt) \<Longrightarrow> 0 < fst (mean_plastic_concentration sc pt)"
  by (cases sc; cases pt) simp_all

lemma bucket_n_pieces_pos_iff:
  "0 < bucket_n_pieces W H mean_scale sc pt \<longleftrightarrow>
     0 < snd (mean_plastic_concentration sc pt) \<and> 0 < mean_scale * (W / 1000) * (H / 1000)"
proof -
  have eq: "bucket_n_pieces W H mean_scale sc pt
      = snd (mean_plastic_concentration sc pt) * (mean_scale * (W / 1000) * (H / 1000))"
    by (simp add: bucket_n_pieces_def)
  show ?thesis
    unfolding eq using concentration_nonneg [of sc pt]
    by (auto simp: zero_less_mult_iff)
qed

lemma avg_mass_per_piece_pos:
  assumes "0 < bucket_n_pieces W H mean_scale sc pt"
  shows "0 < bucket_total_mass W H mean_scale sc pt / bucket_n_pieces W H mean_scale sc pt"
proof -
  from assms have c: "0 < snd (mean_plastic_concentration sc pt)"
    and a: "0 < mean_scale * (W / 1000) * (H / 1000)"
    by (simp_all add: bucket_n_pieces_pos_iff)
  have "bucket_total_mass W H mean_scale sc pt
      = fst (mean_plastic_concentration sc pt) * (mean_scale * (W / 1000) * (H / 1000))"
    by (simp add: bucket_total_mass_def)
  moreover have "0 < fst (mean_plastic_concentration sc pt) * (mean_scale * (W / 1000) * (H / 1000))"
    by (rule mult_pos_pos [OF concentration_mass_pos [OF c] a])
  ultimately have "0 < bucket_total_mass W H mean_scale sc pt" by (simp only:)
  then show ?thesis using assms by (rule divide_pos_pos)
qed

lemma sum_list_weights_nonneg:
  "\<forall>t\<in>set new. 0 < trash_density t \<and> 0 < trash_size t
     \<Longrightarrow> 0 \<le> (\<Sum>t\<leftarrow>new. trash_density t * trash_size t ^ 3)"
  by (induction new) (auto intro!: add_nonneg_nonneg mult_nonneg_nonneg)

lemma sum_list_weights_pos:
  assumes "new \<noteq> []" and "\<forall>t\<in>set new. 0 < trash_density t \<and> 0 < trash_size t"
  shows "0 < (\<Sum>t\<leftarrow>new. trash_density t * trash_size t ^ 3)"
proof (cases new)
  case Nil
  with assms show ?thesis by simp
next
  case (Cons t ts)
  with assms(2) have "0 < trash_density t * trash_size t ^ 3"
    and "0 \<le> (\<Sum>t\<leftarrow>ts. trash_density t * trash_size t ^ 3)"
    by (auto intro: sum_list_weights_nonneg)
  with Cons show ?thesis by (simp add: add_pos_nonneg)
qed

lemma sum_list_set_mass:
  "(\<Sum>t\<leftarrow>new. trash_mass (set_mass total_mass w t))
     = total_mass * (\<Sum>t\<leftarrow>new. trash_density t * trash_size t ^ 3) / w"
  by (induction new) (simp_all add: set_mass_def add_divide_distrib distrib_left)


lemma exact_ops_simps [simp]:
  "f_sub exact_ops a b = a - b" "f_add exact_ops a b = a + b" "f_div exact_ops a b = a / b"
  by (simp_all add: exact_ops_def)

lemma exact_at_zero_exact_ops: "exact_at_zero exact_ops"
  by (simp add: exact_at_zero_def)

lemma hits_boat_degenerate:
  "exact_at_zero ops \<Longrightarrow> fst boat_box = 0 \<or> snd boat_box = 0
     \<Longrightarrow> \<not> hits_boat ops boat_pos boat_box pos"
  by (auto simp: hits_boat_def exact_at_zero_def)

lemma avoid_boat_accepts:
  "\<not> hits_boat ops boat_pos boat_box pos
     \<Longrightarrow> avoid_boat ops W H centered boat_pos boat_box pos g = Some (pos, g)"
  by (subst avoid_boat.simps) simp

lemma length_cumsum [simp]: "length (cumsum acc p) = length p"
  by (induction p arbitrary: acc) simp_all

lemma cumsum_eq_Nil [simp]: "cumsum acc p = [] \<longleftrightarrow> p = []"
  by (cases p) simp_all

lemma last_cumsum: "p \<noteq> [] \<Longrightarrow> last (cumsum acc p) = acc + sum_list p"
proof (induction p arbitrary: acc)
  case Nil
  then show ?case by simp
next
  case (Cons v vs)
  then show ?case by (cases "vs = []") (simp_all add: add.assoc)
qed

lemma np_random_choice_returns:
  assumes "a \<noteq> []" "length p = length a" "\<forall>q\<in>set p. 0 \<le> q" "sum_list p = 1"
  shows "\<exists>v. np_random_choice a p g = Inr (v, g\<lparr>np_pos := Suc (np_pos g)\<rparr>)"
proof -
  let ?u = "Rep_unit_draw (np_tape g (np_pos g))"
  let ?cdf = "map (\<lambda>c. c / sum_list p) (cumsum 0 p)"
  from assms have p: "p \<noteq> []" by auto
  then have "last ?cdf = 1"
    using assms(4) by (simp add: last_map last_cumsum)
  moreover have "last ?cdf \<in> set ?cdf" using p by (intro last_in_set) simp
  ultimately have "1 \<in> set ?cdf" by simp
  moreover have "\<not> 1 \<le> ?u" using Rep_unit_draw_bounds(2) [of "np_tape g (np_pos g)"] by simp
  ultimately have "length (filter (\<lambda>c. c \<le> ?u) ?cdf) < length ?cdf"
    by (rule length_filter_less)
  then have idx: "length (filter (\<lambda>c. c \<le> ?u) ?cdf) < length a"
    using assms(2) by simp
  have neg: "\<not> list_ex (\<lambda>q. q < 0) p"
    using assms(3) by (auto simp: list_ex_iff)
  show ?thesis
    using assms(1,2,4) neg idx
    by (simp add: np_random_choice_def Let_def choice_atol_def)
qed

lemma round_n_pieces_fractional:
  assumes "n_pieces \<notin> \<int>"
  shows "round_n_pieces n_pieces g
     = Inr (if Rep_unit_draw (np_tape g (np_pos g)) < 1 - (n_pieces - of_int \<lfloor>n_pieces\<rfloor>)
            then \<lfloor>n_pieces\<rfloor> else \<lceil>n_pieces\<rceil>,
            g\<lparr>np_pos := Suc (np_pos g)\<rparr>)"
proof -
  from assms have ne: "n_pieces \<noteq> of_int \<lfloor>n_pieces\<rfloor>"
    by (metis Ints_of_int)
  then have c: "\<lceil>n_pieces\<rceil> = \<lfloor>n_pieces\<rfloor> + 1"
    by (simp add: ceiling_altdef)
  have f: "of_int \<lfloor>n_pieces\<rfloor> \<le> n_pieces" "n_pieces < of_int \<lfloor>n_pieces\<rfloor> + 1"
    by linarith+
  show ?thesis
    using ne Rep_unit_draw_bounds [of "np_tape g (np_pos g)"]
    by (simp add: round_n_pieces_def np_random_choice_def Let_def choice_atol_def c)
       (use f in linarith)
qed

lemma round_n_pieces_integer:
  assumes "n_pieces \<in> \<int>"
  shows "round_n_pieces n_pieces g = Inl ValueError"
proof -
  from assms obtain k :: int where k: "n_pieces = of_int k"
    by (auto elim: Ints_cases)
  show ?thesis
    unfolding k
    by (simp add: round_n_pieces_def np_random_choice_def Let_def choice_atol_def)
qed

lemma sum_list_divide: "(\<Sum>q\<leftarrow>ps. q / c) = sum_list ps / (c::real)"
  by (induction ps) (simp_all add: add_divide_distrib)

lemma material_densities_known:
  "m \<in> {''PE'', ''PP'', ''PS'', ''PVC''} \<Longrightarrow> material_densities m \<noteq> None"
  by (elim insertE emptyE; simp add: material_densities_def)

lemma plastic_materials_entries:
  "plastic_materials sc pt = Some mats
     \<Longrightarrow> mats \<noteq> []
         \<and> (\<forall>m\<in>set mats. 0 < snd m \<and> fst m \<in> {''PE'', ''PP'', ''PS'', ''PVC''})"
  by (cases sc; cases pt) auto

lemma plastic_materials_present:
  "0 < snd (mean_plastic_concentration sc pt) \<Longrightarrow> plastic_materials sc pt \<noteq> None"
  by (cases sc; cases pt) simp_all

lemma draw_pos_cases:
  obtains pos g' where "draw_pos W H centered g = (pos, g')"
  by (cases "draw_pos W H centered g") blast

lemma material_choice_returns:
  assumes "plastic_materials sc pt = Some mats"
  shows "\<exists>m d. np_random_choice (map fst mats)
            (map (\<lambda>q. q / sum_list (map snd mats)) (map snd mats)) g
              = Inr (m, g\<lparr>np_pos := Suc (np_pos g)\<rparr>)
            \<and> material_densities m = Some d"
proof -
  from plastic_materials_entries [OF assms]
  have ne: "mats \<noteq> []"
    and ent: "\<forall>m\<in>set mats. 0 < snd m \<and> fst m \<in> {''PE'', ''PP'', ''PS'', ''PVC''}"
    by blast+
  from ne obtain m0 ms where mats: "mats = m0 # ms" by (cases mats) auto
  have nonneg: "0 \<le> sum_list (map snd ms)"
    using ent mats by (intro sum_list_nonneg) (auto intro: less_imp_le)
  have pos: "0 < sum_list (map snd mats)"
    using ent mats nonneg by (simp add: add_pos_nonneg)
  have one: "sum_list (map (\<lambda>q. q / sum_list (map snd mats)) (map snd mats)) = 1"
    using pos by (simp add: sum_list_divide del: map_map)
  have ge: "\<forall>q\<in>set (map (\<lambda>q. q / sum_list (map snd mats)) (map snd mats)). 0 \<le> q"
    using ent pos by (auto intro!: divide_nonneg_pos less_imp_le)
  from np_random_choice_returns [of "map fst mats" _ g, OF _ _ ge one] ne
  obtain m where m: "np_random_choice (map fst mats)
            (map (\<lambda>q. q / sum_list (map snd mats)) (map snd mats)) g
              = Inr (m, g\<lparr>np_pos := Suc (np_pos g)\<rparr>)"
    by auto
  from np_random_choice_Inr [OF m] have "m \<in> fst ` set mats" by simp
  with ent have "m \<in> {''PE'', ''PP'', ''PS'', ''PVC''}" by auto
  from material_densities_known [OF this] m show ?thesis by auto
qed

lemma gen_piece_returns:
  assumes box: "\<And>pos. \<not> hits_boat ops boat_pos boat_box pos"
    and mats: "plastic_materials sc pt \<noteq> None"
  shows "\<exists>st'. gen_piece ops W H boat_pos boat_box centered sc pt st = Some (Inr st')"
proof -
  obtain pieces tmp g where st: "st = (pieces, tmp, g)" by (cases st) auto
  obtain pos0 g1 where d: "draw_pos W H centered g = (pos0, g1)" by (rule draw_pos_cases)
  have a: "avoid_boat ops W H centered boat_pos boat_box pos0 g1 = Some (pos0, g1)"
    by (rule avoid_boat_accepts [OF box])
  obtain u g3 where
    u: "random_uniform (log 10 (fst (size_ranges sc))) (log 10 (snd (size_ranges sc))) g1 = (u, g3)"
    by (cases "random_uniform (log 10 (fst (size_ranges sc))) (log 10 (snd (size_ranges sc))) g1")
  from mats obtain ms where ms: "plastic_materials sc pt = Some ms" by auto
  from material_choice_returns [OF ms, of g3] obtain m dn where
    "np_random_choice (map fst ms) (map (\<lambda>q. q / sum_list (map snd ms)) (map snd ms)) g3
       = Inr (m, g3\<lparr>np_pos := Suc (np_pos g3)\<rparr>)"
    "material_densities m = Some dn"
    by blast
  then show ?thesis
    by (simp add: gen_piece_def st d a u ms Let_def)
qed

lemma gen_pieces_returns:
  assumes box: "\<And>pos. \<not> hits_boat ops boat_pos boat_box pos"
    and mats: "plastic_materials sc pt \<noteq> None"
  shows "\<exists>st'. gen_pieces ops k W H boat_pos boat_box centered sc pt st = Some (Inr st')"
proof (induction k arbitrary: st)
  case 0
  show ?case by (rule exI [of _ st]) simp
next
  case (Suc k)
  from gen_piece_returns [OF box mats] obtain st1 where
    "gen_piece ops W H boat_pos boat_box centered sc pt st = Some (Inr st1)" by blast
  with Suc [of st1] show ?case by simp
qed

lemma gen_bucket_skips:
  "bucket_n_pieces W H mean_scale sc pt \<le> 0
     \<Longrightarrow> gen_bucket ops W H boat_pos boat_box centered mean_scale sc pt st = Some (Inr st)"
  by (cases st) (simp add: gen_bucket_def Let_def)

lemma gen_bucket_returns:
  assumes box: "\<And>pos. \<not> hits_boat ops boat_pos boat_box pos"
    and frac: "bucket_n_pieces W H mean_scale sc pt \<le> 0
               \<or> bucket_n_pieces W H mean_scale sc pt \<notin> \<int>"
  shows "\<exists>st'. gen_bucket ops W H boat_pos boat_box centered mean_scale sc pt st = Some (Inr st')"
proof (cases "0 < bucket_n_pieces W H mean_scale sc pt")
  case False
  then show ?thesis by (simp add: gen_bucket_skips)
next
  case True
  with frac have nint: "bucket_n_pieces W H mean_scale sc pt \<notin> \<int>" by auto
  obtain pieces g where st: "st = (pieces, g)" by (cases st) auto
  from True have "plastic_materials sc pt \<noteq> None"
    by (simp add: bucket_n_pieces_pos_iff plastic_materials_present)
  obtain n g1 where
    r: "round_n_pieces (bucket_n_pieces W H mean_scale sc pt) g = Inr (n, g1)"
    using round_n_pieces_fractional [OF nint, of g] by blast
  from gen_pieces_returns [OF box \<open>plastic_materials sc pt \<noteq> None\<close>,
      where k = "nat n" and W = W and H = H and centered = centered and st = "(pieces, 0, g1)"]
  obtain ps w g2 where
    "gen_pieces ops (nat n) W H boat_pos boat_box centered sc pt (pieces, 0, g1)
       = Some (Inr (ps, w, g2))"
    by auto
  with True r show ?thesis
    by (simp add: gen_bucket_def st Let_def)
qed

lemma for_each_returns:
  assumes "\<And>v st. v \<in> set vs \<Longrightarrow> \<exists>st'. body v st = Some (Inr st')"
  shows "\<exists>st'. for_each body vs st = Some (Inr st')"
  using assms
proof (induction vs arbitrary: st)
  case Nil
  show ?case by simp
next
  case (Cons v vs)
  from Cons.prems [of v st] obtain st1 where "body v st = Some (Inr st1)" by auto
  moreover from Cons.IH [of st1] Cons.prems obtain st2 where
    "for_each body vs st1 = Some (Inr st2)" by auto
  ultimately show ?case by simp
qed

lemma generate_trash_returns:
  assumes box: "\<And>pos. \<not> hits_boat ops boat_pos boat_box pos"
    and frac: "\<And>sc pt. sc \<in> set relevant_size_classes \<Longrightarrow>
                 bucket_n_pieces W H mean_scale sc pt \<le> 0
                 \<or> bucket_n_pieces W H mean_scale sc pt \<notin> \<int>"
  shows "\<exists>pieces g'. generate_trash ops W H boat_pos boat_box centered mean_scale
            relevant_size_classes False g = Some (Inr (pieces, g'))"
proof -
  have "\<exists>st'. for_each
          (\<lambda>sc. for_each (gen_bucket ops W H boat_pos boat_box centered mean_scale sc)
                  all_plastic_types)
          relevant_size_classes ([], g) = Some (Inr st')"
    by (intro for_each_returns gen_bucket_returns box frac)
  then show ?thesis by (auto simp: generate_trash_def)
qed

lemma Rep_half_draw [simp]: "Rep_unit_draw half_draw = 1 / 2"
  by (simp add: half_draw_def Abs_unit_draw_inverse)

lemma thirty_three_tenths_not_int: "(33 / 10 :: real) \<notin> \<int>"
  by (simp add: frac_eq_0_iff [symmetric] frac_def)

lemma gen_bucket_count:
  assumes run: "gen_bucket ops W H boat_pos boat_box centered mean_scale sc pt (pieces, g)
                  = Some (Inr (pieces', g'))"
    and target: "0 < bucket_n_pieces W H mean_scale sc pt"
  shows "bucket_n_pieces W H mean_scale sc pt \<notin> \<int>
     \<and> int (length pieces') = int (length pieces) +
         (if Rep_unit_draw (np_tape g (np_pos g))
               < 1 - (bucket_n_pieces W H mean_scale sc pt
                       - of_int \<lfloor>bucket_n_pieces W H mean_scale sc pt\<rfloor>)
          then \<lfloor>bucket_n_pieces W H mean_scale sc pt\<rfloor>
          else \<lceil>bucket_n_pieces W H mean_scale sc pt\<rceil>)"
proof -
  let ?N = "bucket_n_pieces W H mean_scale sc pt"
  from run target obtain n g1 ps1 w where
    rnd: "round_n_pieces ?N g = Inr (n, g1)"
    and gen: "gen_pieces ops (nat n) W H boat_pos boat_box centered sc pt (pieces, 0, g1)
                = Some (Inr (ps1, w, g'))"
    and res: "pieces' = assign_masses (bucket_total_mass W H mean_scale sc pt / ?N * of_int n)
                 w (nat n) ps1"
    by (auto simp: gen_bucket_def Let_def then_do_eq_Some_Inr split: sum.splits)
  have nint: "?N \<notin> \<int>"
    using rnd round_n_pieces_integer [of ?N g] by auto
  from round_n_pieces_Inr [OF rnd] target have n0: "0 \<le> n"
    by (auto simp: le_floor_iff intro: order_trans [OF _ le_of_int_ceiling])
  from gen_pieces_appends [OF gen] obtain raw where
    raw: "ps1 = pieces @ raw" "length raw = nat n" by auto
  have "length pieces' = length pieces + nat n"
    using res raw by (simp add: assign_masses_def foldl_update_length)
  with n0 have "int (length pieces') = int (length pieces) + n" by simp
  moreover from rnd round_n_pieces_fractional [OF nint, of g]
  have "n = (if Rep_unit_draw (np_tape g (np_pos g)) < 1 - (?N - of_int \<lfloor>?N\<rfloor>)
             then \<lfloor>?N\<rfloor> else \<lceil>?N\<rceil>)"
    by simp
  ultimately show ?thesis using nint by simp
qed


section \<open>Mass assignment in a bucket\<close>

text \<open>C1: when a bucket with a positive target count has been generated, the list of
  pieces is the old list followed by the \<open>n\<close> new pieces, \<open>n\<close> being the floor or the
  ceiling of the target count; the second pass has given each new piece the mass
  \<open>total_mass * (density * size^3) / total_weight\<close>, where \<open>total_mass\<close> is the average
  mass per piece times \<open>n\<close> and \<open>total_weight\<close> is the sum of \<open>density * size^3\<close> over
  the new pieces; every such mass is positive and the masses add up to \<open>total_mass\<close>.
  (Arithmetic is over the reals, so the sum is exact.)\<close>

theorem bucket_mass_second_pass:
  assumes run: "gen_bucket ops W H boat_pos boat_box centered mean_scale sc pt (pieces, g)
                  = Some (Inr (pieces', g'))"
    and target: "0 < bucket_n_pieces W H mean_scale sc pt"
  shows "\<exists>new.
     pieces' = pieces @ new
     \<and> (int (length new) = \<lfloor>bucket_n_pieces W H mean_scale sc pt\<rfloor>
          \<or> int (length new) = \<lceil>bucket_n_pieces W H mean_scale sc pt\<rceil>)
     \<and> (let total_mass = bucket_total_mass W H mean_scale sc pt
                  / bucket_n_pieces W H mean_scale sc pt * real (length new);
             total_weight = (\<Sum>t\<leftarrow>new. trash_density t * trash_size t ^ 3)
         in list_all (\<lambda>t. trash_mass t
                   = total_mass * (trash_density t * trash_size t ^ 3) / total_weight
                   \<and> 0 < trash_mass t) new
            \<and> (\<Sum>t\<leftarrow>new. trash_mass t) = total_mass)"
proof -
  let ?N = "bucket_n_pieces W H mean_scale sc pt"
  let ?avg = "bucket_total_mass W H mean_scale sc pt / ?N"
  from run target obtain n g1 ps1 w where
    rnd: "round_n_pieces ?N g = Inr (n, g1)"
    and gen: "gen_pieces ops (nat n) W H boat_pos boat_box centered sc pt (pieces, 0, g1)
                = Some (Inr (ps1, w, g'))"
    and res: "pieces' = assign_masses (?avg * of_int n) w (nat n) ps1"
    by (auto simp: gen_bucket_def Let_def then_do_eq_Some_Inr split: sum.splits)
  from round_n_pieces_Inr [OF rnd] have n: "n = \<lfloor>?N\<rfloor> \<or> n = \<lceil>?N\<rceil>" by simp
  with target have n0: "0 \<le> n" by (auto simp: le_floor_iff intro: order_trans [OF _ le_of_int_ceiling])
  from gen_pieces_appends [OF gen] obtain raw where
    raw: "ps1 = pieces @ raw" "length raw = nat n"
         "w = (\<Sum>t\<leftarrow>raw. trash_density t * trash_size t ^ 3)"
         "\<forall>t\<in>set raw. trash_mass t = 0 \<and> trash_size_class t = sc
               \<and> trash_plastic_type t = pt \<and> 0 < trash_density t \<and> 0 < trash_size t"
    by auto
  from raw(4) have rawpos: "\<forall>t\<in>set raw. 0 < trash_density t \<and> 0 < trash_size t"
    by blast
  let ?T = "?avg * of_int n"
  let ?new = "map (set_mass ?T w) raw"
  have new: "pieces' = pieces @ ?new"
    using res raw(1,2) assign_masses_append [of ?T w raw pieces] by simp
  have len: "int (length ?new) = n" using raw(2) n0 by simp
  have realn: "real (length ?new) = of_int n" using raw(2) n0 by simp
  have dens: "map (\<lambda>t. trash_density t * trash_size t ^ 3) ?new
                = map (\<lambda>t. trash_density t * trash_size t ^ 3) raw"
    by (simp add: set_mass_def)
  have weight: "(\<Sum>t\<leftarrow>?new. trash_density t * trash_size t ^ 3) = w"
    using raw(3) by (simp add: set_mass_def comp_def)
  have masses: "list_all (\<lambda>t. trash_mass t = ?T * (trash_density t * trash_size t ^ 3) / w
                   \<and> 0 < trash_mass t) ?new"
  proof (cases "raw = []")
    case True
    then show ?thesis by simp
  next
    case False
    with raw(2) have "0 < n" by (cases "0 < n") auto
    then have "0 < real_of_int n" by simp
    with avg_mass_per_piece_pos [OF target] have T: "0 < ?T" by (rule mult_pos_pos)
    from sum_list_weights_pos [OF False rawpos] raw(3) have w: "0 < w" by simp
    show ?thesis
      unfolding list_all_iff
    proof
      fix t assume "t \<in> set ?new"
      then obtain r where r: "r \<in> set raw" "t = set_mass ?T w r" by auto
      with raw(4) have "0 < trash_density r" "0 < trash_size r" by auto
      then have "0 < trash_density r * trash_size r ^ 3" by simp
      with T have "0 < ?T * (trash_density r * trash_size r ^ 3)" by (rule mult_pos_pos)
      then have "0 < ?T * (trash_density r * trash_size r ^ 3) / w" using w by (rule divide_pos_pos)
      with r(2) show "trash_mass t = ?T * (trash_density t * trash_size t ^ 3) / w
                   \<and> 0 < trash_mass t"
        by (simp add: set_mass_def)
    qed
  qed
  have total: "(\<Sum>t\<leftarrow>?new. trash_mass t) = ?T"
  proof (cases "raw = []")
    case True
    with raw(2) n0 have "n = 0" by simp
    with True show ?thesis by simp
  next
    case False
    from sum_list_weights_pos [OF False rawpos] raw(3) have w: "0 < w" by simp
    have "(\<Sum>t\<leftarrow>?new. trash_mass t) = (\<Sum>t\<leftarrow>raw. trash_mass (set_mass ?T w t))"
      by (simp add: comp_def)
    also have "\<dots> = ?T * w / w" using sum_list_set_mass [of ?T w raw] raw(3) by simp
    also have "\<dots> = ?T" using w by simp
    finally show ?thesis .
  qed
  show ?thesis
    apply (rule exI [of _ ?new])
    unfolding Let_def weight realn
    using new len n masses total by simp
qed

theorem bucket_mass_second_pass_witness:
  "\<exists>pieces' g'.
     gen_bucket exact_ops 1000 1000 (0, 0) (0, 0) False 1 MEGA PT_N ([], fixed_rng) = Some (Inr (pieces', g'))
     \<and> 0 < bucket_n_pieces 1000 1000 1 MEGA PT_N
     \<and> length pieces' = 3
     \<and> list_all (\<lambda>t. 0 < trash_mass t) pieces'
     \<and> (\<Sum>t\<leftarrow>pieces'. trash_mass t) = 42.82 / 3.3 * 3"
proof -
  have N: "bucket_n_pieces 1000 1000 1 MEGA PT_N = 33 / 10"
    by (simp add: bucket_n_pieces_def)
  have M: "bucket_total_mass 1000 1000 1 MEGA PT_N = 42.82"
    by (simp add: bucket_total_mass_def)
  have pos: "0 < bucket_n_pieces 1000 1000 1 MEGA PT_N" by (simp add: N)
  have "\<exists>st'. gen_bucket exact_ops 1000 1000 (0, 0) (0, 0) False 1 MEGA PT_N ([], fixed_rng)
          = Some (Inr st')"
    by (rule gen_bucket_returns) (simp_all add: N thirty_three_tenths_not_int hits_boat_def)
  then obtain pieces' g' where
    run: "gen_bucket exact_ops 1000 1000 (0, 0) (0, 0) False 1 MEGA PT_N ([], fixed_rng)
            = Some (Inr (pieces', g'))"
    by auto
  from gen_bucket_count [OF run pos] have len: "length pieces' = 3"
    by (simp add: N fixed_rng_def)
  from bucket_mass_second_pass [OF run pos] len
  have "list_all (\<lambda>t. 0 < trash_mass t) pieces'
     \<and> (\<Sum>t\<leftarrow>pieces'. trash_mass t) = 42.82 / 3.3 * 3"
    by (auto simp: N M Let_def list_all_iff)
  with run pos len show ?thesis by blast
qed

section \<open>What one run of the loops does to the pieces and the generators\<close>

lemma gen_bucket_integer_raises:
  assumes "0 < bucket_n_pieces W H mean_scale sc pt"
    and "bucket_n_pieces W H mean_scale sc pt \<in> \<int>"
  shows "gen_bucket ops W H boat_pos boat_box centered mean_scale sc pt st = Some (Inl ValueError)"
  using assms by (cases st) (simp add: gen_bucket_def Let_def round_n_pieces_integer)

lemma gen_piece_Inr_elim:
  assumes "gen_piece ops W H boat_pos boat_box centered sc pt (pieces, tmp, g)
             = Some (Inr (pieces', tmp', g'))"
  obtains pos0 g1 pos g2 u g3 mats m d where
    "draw_pos W H centered g = (pos0, g1)"
    "avoid_boat ops W H centered boat_pos boat_box pos0 g1 = Some (pos, g2)"
    "random_uniform (log 10 (fst (size_ranges sc))) (log 10 (snd (size_ranges sc))) g2 = (u, g3)"
    "plastic_materials sc pt = Some mats"
    "np_random_choice (map fst mats)
       (map (\<lambda>q. q / sum_list (map snd mats)) (map snd mats)) g3 = Inr (m, g')"
    "material_densities m = Some d"
    "pieces' = pieces @
       [\<lparr>trash_x = fst pos, trash_y = snd pos, trash_size = 10 powr u / 100,
         trash_mass = 0, trash_density = d, trash_size_class = sc, trash_plastic_type = pt\<rparr>]"
    "tmp' = tmp + d * (10 powr u / 100) ^ 3"
proof -
  obtain pos0 g1 where d: "draw_pos W H centered g = (pos0, g1)" by (rule draw_pos_cases)
  from assms d obtain pos g2 where
    a: "avoid_boat ops W H centered boat_pos boat_box pos0 g1 = Some (pos, g2)"
    by (cases "avoid_boat ops W H centered boat_pos boat_box pos0 g1")
       (auto simp: gen_piece_def)
  obtain u g3 where
    u: "random_uniform (log 10 (fst (size_ranges sc))) (log 10 (snd (size_ranges sc))) g2 = (u, g3)"
    by (cases "random_uniform (log 10 (fst (size_ranges sc))) (log 10 (snd (size_ranges sc))) g2")
  from assms d a u obtain mats where ms: "plastic_materials sc pt = Some mats"
    by (cases "plastic_materials sc pt") (auto simp: gen_piece_def Let_def)
  let ?c = "np_random_choice (map fst mats)
       (map (\<lambda>q. q / sum_list (map snd mats)) (map snd mats)) g3"
  from assms d a u ms obtain m g4 where c: "?c = Inr (m, g4)"
    by (cases ?c) (auto simp: gen_piece_def Let_def)
  from assms d a u ms c obtain dn where dn: "material_densities m = Some dn"
    by (cases "material_densities m") (auto simp: gen_piece_def Let_def)
  from assms d a u ms c dn have
    "g' = g4"
    "pieces' = pieces @
       [\<lparr>trash_x = fst pos, trash_y = snd pos, trash_size = 10 powr u / 100,
         trash_mass = 0, trash_density = dn, trash_size_class = sc, trash_plastic_type = pt\<rparr>]"
    "tmp' = tmp + dn * (10 powr u / 100) ^ 3"
    by (simp_all add: gen_piece_def Let_def)
  with d a u ms c dn that show thesis by blast
qed

lemma gen_piece_outside_boat:
  assumes "gen_piece ops W H boat_pos boat_box centered sc pt (pieces, tmp, g)
             = Some (Inr (pieces', tmp', g'))"
  shows "\<exists>t. pieces' = pieces @ [t] \<and> outside_boat ops boat_pos boat_box t"
proof -
  from assms obtain pos0 g1 pos g2 u g3 d where
    a: "avoid_boat ops W H centered boat_pos boat_box pos0 g1 = Some (pos, g2)"
    and u: "random_uniform (log 10 (fst (size_ranges sc))) (log 10 (snd (size_ranges sc))) g2
              = (u, g3)"
    and p: "pieces' = pieces @
       [\<lparr>trash_x = fst pos, trash_y = snd pos, trash_size = 10 powr u / 100,
         trash_mass = 0, trash_density = d, trash_size_class = sc, trash_plastic_type = pt\<rparr>]"
    by (rule gen_piece_Inr_elim)
  from avoid_boat_not_hit [OF a]
  show ?thesis unfolding p outside_boat_def by auto
qed

lemma gen_pieces_outside_boat:
  "gen_pieces ops k W H boat_pos boat_box centered sc pt (pieces, tmp, g)
     = Some (Inr (pieces', tmp', g'))
   \<Longrightarrow> list_all (outside_boat ops boat_pos boat_box) pieces
   \<Longrightarrow> list_all (outside_boat ops boat_pos boat_box) pieces'"
proof (induction k arbitrary: pieces tmp g)
  case 0
  then show ?case by simp
next
  case (Suc k)
  from Suc.prems(1) obtain ps1 tmp1 g1 where
    step: "gen_piece ops W H boat_pos boat_box centered sc pt (pieces, tmp, g)
             = Some (Inr (ps1, tmp1, g1))"
    and rest: "gen_pieces ops k W H boat_pos boat_box centered sc pt (ps1, tmp1, g1)
             = Some (Inr (pieces', tmp', g'))"
    by (auto simp: then_do_eq_Some_Inr)
  from gen_piece_outside_boat [OF step] Suc.prems(2)
  have "list_all (outside_boat ops boat_pos boat_box) ps1" by auto
  from Suc.IH [OF rest this] show ?case .
qed

lemma outside_boat_set_mass [simp]:
  "outside_boat ops boat_pos boat_box (set_mass total_mass w t) = outside_boat ops boat_pos boat_box t"
  by (simp add: outside_boat_def set_mass_def)

lemma assign_masses_list_all:
  assumes "\<And>t. Q (set_mass total_mass w t) = Q t"
  shows "list_all Q (assign_masses total_mass w n pieces) = list_all Q pieces"
proof -
  let ?f = "set_mass total_mass w"
  let ?ps = "assign_masses total_mass w n pieces"
  have len: "length ?ps = length pieces"
    by (simp add: assign_masses_def foldl_update_length)
  have nth: "\<And>i. i < length pieces \<Longrightarrow> Q (?ps ! i) = Q (pieces ! i)"
    by (simp add: assign_masses_def foldl_update_range_nth assms)
  show ?thesis
    unfolding list_all_length using len nth by auto
qed

lemma gen_bucket_outside_boat:
  assumes "gen_bucket ops W H boat_pos boat_box centered mean_scale sc pt (pieces, g)
             = Some (Inr (pieces', g'))"
    and "list_all (outside_boat ops boat_pos boat_box) pieces"
  shows "list_all (outside_boat ops boat_pos boat_box) pieces'"
proof (cases "0 < bucket_n_pieces W H mean_scale sc pt")
  case False
  with assms show ?thesis by (simp add: gen_bucket_def Let_def)
next
  case True
  with assms(1) obtain n g1 ps1 w where
    gen: "gen_pieces ops (nat n) W H boat_pos boat_box centered sc pt (pieces, 0, g1)
                = Some (Inr (ps1, w, g'))"
    and res: "pieces' = assign_masses
                (bucket_total_mass W H mean_scale sc pt
                   / bucket_n_pieces W H mean_scale sc pt * of_int n) w (nat n) ps1"
    by (auto simp: gen_bucket_def Let_def then_do_eq_Some_Inr split: sum.splits)
  from gen_pieces_outside_boat [OF gen assms(2)] show ?thesis
    unfolding res by (simp add: assign_masses_list_all)
qed

lemma for_each_invariant:
  assumes "for_each body vs st = Some (Inr st')"
    and "I st"
    and "\<And>v s s'. v \<in> set vs \<Longrightarrow> I s \<Longrightarrow> body v s = Some (Inr s') \<Longrightarrow> I s'"
  shows "I st'"
  using assms
proof (induction vs arbitrary: st)
  case Nil
  then show ?case by simp
next
  case (Cons v vs)
  from Cons.prems(1) obtain s1 where
    s1: "body v st = Some (Inr s1)" "for_each body vs s1 = Some (Inr st')"
    by (auto simp: then_do_eq_Some_Inr)
  from Cons.prems(3) [OF _ Cons.prems(2) s1(1)] have "I s1" by simp
  show ?case
  proof (rule Cons.IH [OF s1(2) \<open>I s1\<close>])
    fix w s s'
    assume "w \<in> set vs" "I s" "body w s = Some (Inr s')"
    then show "I s'" using Cons.prems(3) [of w s s'] by simp
  qed
qed

lemma generate_trash_outside_boat:
  assumes "generate_trash ops W H boat_pos boat_box centered mean_scale relevant_size_classes
             False g = Some (Inr (pieces, g'))"
  shows "list_all (outside_boat ops boat_pos boat_box) pieces"
proof -
  let ?I = "\<lambda>st. list_all (outside_boat ops boat_pos boat_box) (fst st)"
  have inner: "?I s'"
    if "for_each (gen_bucket ops W H boat_pos boat_box centered mean_scale sc) all_plastic_types s
          = Some (Inr s')" and "?I s" for sc s s'
    using that(1,2)
  proof (rule for_each_invariant [where I = ?I])
    fix pt s s'
    assume "?I s" "gen_bucket ops W H boat_pos boat_box centered mean_scale sc pt s = Some (Inr s')"
    then show "?I s'"
      using gen_bucket_outside_boat [of ops W H boat_pos boat_box centered mean_scale sc pt "fst s" "snd s" "fst s'" "snd s'"]
      by simp
  qed
  from assms have "for_each
          (\<lambda>sc. for_each (gen_bucket ops W H boat_pos boat_box centered mean_scale sc)
                  all_plastic_types)
          relevant_size_classes ([], g) = Some (Inr (pieces, g'))"
    by (simp add: generate_trash_def)
  then have "?I (pieces, g')"
    by (rule for_each_invariant [where I = ?I]) (auto intro: inner)
  then show ?thesis by simp
qed

lemma random_uniform_state:
  "random_uniform a b g = (u, g') \<Longrightarrow>
     u = a + (b - a) * Rep_unit_draw (py_tape g (py_pos g)) \<and> g' = g\<lparr>py_pos := Suc (py_pos g)\<rparr>"
  by (auto simp: random_uniform_def)

lemma draw_pos_state:
  "draw_pos W H centered g = (pos, g') \<Longrightarrow>
     pos = pos_at W H centered (py_tape g) (py_pos g) \<and> g' = g\<lparr>py_pos := py_pos g + 2\<rparr>"
  by (auto simp: draw_pos_def pos_at_def random_uniform_def Let_def)

lemma avoid_boat_state_aux:
  assumes "avoid_boat ops W H centered boat_pos boat_box pos g = Some r"
  shows "py_tape (snd r) = py_tape g \<and> np_tape (snd r) = np_tape g \<and> np_pos (snd r) = np_pos g
     \<and> (r = (pos, g)
         \<or> py_pos g + 2 \<le> py_pos (snd r)
            \<and> fst r = pos_at W H centered (py_tape g) (py_pos (snd r) - 2))"
proof (rule avoid_boat.raw_induct
        [where P = "\<lambda>ops W H centered boat_pos boat_box pos g r.
           py_tape (snd r) = py_tape g \<and> np_tape (snd r) = np_tape g \<and> np_pos (snd r) = np_pos g
           \<and> (r = (pos, g)
               \<or> py_pos g + 2 \<le> py_pos (snd r)
                  \<and> fst r = pos_at W H centered (py_tape g) (py_pos (snd r) - 2))",
         OF _ assms])
  fix avoid ops W H centered boat_pos boat_box pos g r
  assume IH: "\<And>ops W H centered boat_pos boat_box pos g r.
      avoid ops W H centered boat_pos boat_box pos g = Some r \<Longrightarrow>
      py_tape (snd r) = py_tape g \<and> np_tape (snd r) = np_tape g \<and> np_pos (snd r) = np_pos g
           \<and> (r = (pos, g)
               \<or> py_pos g + 2 \<le> py_pos (snd r)
                  \<and> fst r = pos_at W H centered (py_tape g) (py_pos (snd r) - 2))"
    and step: "(if hits_boat ops boat_pos boat_box pos
      then (case draw_pos W H centered g of (pos', g') \<Rightarrow>
              avoid ops W H centered boat_pos boat_box pos' g')
      else Some (pos, g)) = Some r"
  show "py_tape (snd r) = py_tape g \<and> np_tape (snd r) = np_tape g \<and> np_pos (snd r) = np_pos g
           \<and> (r = (pos, g)
               \<or> py_pos g + 2 \<le> py_pos (snd r)
                  \<and> fst r = pos_at W H centered (py_tape g) (py_pos (snd r) - 2))"
  proof (cases "hits_boat ops boat_pos boat_box pos")
    case False
    with step show ?thesis by auto
  next
    case True
    obtain pos' g1 where d: "draw_pos W H centered g = (pos', g1)" by (rule draw_pos_cases)
    from draw_pos_state [OF d] have
      d1: "pos' = pos_at W H centered (py_tape g) (py_pos g)"
          "g1 = g\<lparr>py_pos := py_pos g + 2\<rparr>" by simp_all
    from step True d have "avoid ops W H centered boat_pos boat_box pos' g1 = Some r" by simp
    from IH [OF this] d1 show ?thesis by auto
  qed
qed

lemma gen_piece_drawn_at:
  assumes "gen_piece ops W H boat_pos boat_box centered sc pt (pieces, tmp, g)
             = Some (Inr (pieces', tmp', g'))"
  shows "\<exists>i t. pieces' = pieces @ [t] \<and> drawn_at W H centered (py_tape g) i t
            \<and> py_pos g \<le> i \<and> py_pos g' = i + 3
            \<and> py_tape g' = py_tape g \<and> np_tape g' = np_tape g"
proof -
  from assms obtain pos0 g1 pos g2 u g3 mats m d where
    dp: "draw_pos W H centered g = (pos0, g1)"
    and a: "avoid_boat ops W H centered boat_pos boat_box pos0 g1 = Some (pos, g2)"
    and u: "random_uniform (log 10 (fst (size_ranges sc))) (log 10 (snd (size_ranges sc))) g2
              = (u, g3)"
    and ms: "plastic_materials sc pt = Some mats"
    and c: "np_random_choice (map fst mats)
       (map (\<lambda>q. q / sum_list (map snd mats)) (map snd mats)) g3 = Inr (m, g')"
    and dn: "material_densities m = Some d"
    and p: "pieces' = pieces @
       [\<lparr>trash_x = fst pos, trash_y = snd pos, trash_size = 10 powr u / 100,
         trash_mass = 0, trash_density = d, trash_size_class = sc, trash_plastic_type = pt\<rparr>]"
    and w: "tmp' = tmp + d * (10 powr u / 100) ^ 3"
    by (rule gen_piece_Inr_elim)
  from draw_pos_state [OF dp] have
    d1: "pos0 = pos_at W H centered (py_tape g) (py_pos g)"
        "g1 = g\<lparr>py_pos := py_pos g + 2\<rparr>" by simp_all
  from avoid_boat_state_aux [OF a] d1 have
    a1: "py_tape g2 = py_tape g" "np_tape g2 = np_tape g"
        "py_pos g + 2 \<le> py_pos g2"
        "pos = pos_at W H centered (py_tape g) (py_pos g2 - 2)"
    by auto
  from random_uniform_state [OF u] have
    u1: "u = log 10 (fst (size_ranges sc))
               + (log 10 (snd (size_ranges sc)) - log 10 (fst (size_ranges sc)))
                 * Rep_unit_draw (py_tape g2 (py_pos g2))"
        "g3 = g2\<lparr>py_pos := Suc (py_pos g2)\<rparr>" by simp_all
  from np_random_choice_Inr [OF c] have c1: "g' = g3\<lparr>np_pos := Suc (np_pos g3)\<rparr>" by simp
  define i where "i = py_pos g2 - 2"
  with a1(3) have i: "py_pos g2 = i + 2" "py_pos g \<le> i" by simp_all
  from a1(4) have pos: "pos = pos_at W H centered (py_tape g) i" by (simp add: i_def)
  have "drawn_at W H centered (py_tape g) i
          \<lparr>trash_x = fst pos, trash_y = snd pos, trash_size = 10 powr u / 100,
           trash_mass = 0, trash_density = d, trash_size_class = sc, trash_plastic_type = pt\<rparr>"
    using pos u1(1) a1(1) i(1) by (simp add: drawn_at_def size_at_def)
  moreover have "py_pos g' = i + 3" "py_tape g' = py_tape g" "np_tape g' = np_tape g"
    using c1 u1(2) a1(1,2) i(1) by simp_all
  ultimately show ?thesis using p i(2) by blast
qed

lemma drawn_in_order_Nil [simp]: "drawn_in_order W H centered tape bound []"
  by (auto simp: drawn_in_order_def)

lemma drawn_in_order_mono:
  "drawn_in_order W H centered tape bound pieces \<Longrightarrow> bound \<le> bound'
     \<Longrightarrow> drawn_in_order W H centered tape bound' pieces"
  unfolding drawn_in_order_def list_all_iff by (meson le_trans)

lemma drawn_in_order_snoc:
  assumes "drawn_in_order W H centered tape bound pieces"
    and "drawn_at W H centered tape i t" and "bound \<le> i"
  shows "drawn_in_order W H centered tape (i + 3) (pieces @ [t])"
proof -
  from assms(1) obtain ixs where
    ixs: "list_all2 (drawn_at W H centered tape) ixs pieces" "sorted_wrt (<) ixs"
        "list_all (\<lambda>i. i + 3 \<le> bound) ixs"
    by (auto simp: drawn_in_order_def)
  have "list_all2 (drawn_at W H centered tape) (ixs @ [i]) (pieces @ [t])"
    using ixs(1) assms(2) by (simp add: list_all2_appendI)
  moreover have "sorted_wrt (<) (ixs @ [i])"
    using ixs(2,3) assms(3) by (auto simp: sorted_wrt_append list_all_iff)
  moreover have "list_all (\<lambda>j. j + 3 \<le> i + 3) (ixs @ [i])"
    using ixs(3) assms(3) by (auto simp: list_all_iff)
  ultimately show ?thesis unfolding drawn_in_order_def by blast
qed

lemma drawn_at_set_mass [simp]:
  "drawn_at W H centered tape i (set_mass total_mass w t) = drawn_at W H centered tape i t"
  by (simp add: drawn_at_def set_mass_def)

lemma assign_masses_nth:
  "i < length pieces \<Longrightarrow>
     assign_masses total_mass w n pieces ! i
       = (if length pieces - n \<le> i then set_mass total_mass w (pieces ! i) else pieces ! i)"
  by (simp add: assign_masses_def foldl_update_range_nth)

lemma length_assign_masses [simp]:
  "length (assign_masses total_mass w n pieces) = length pieces"
  by (simp add: assign_masses_def foldl_update_length)

lemma drawn_at_assign_masses_nth:
  "k < length pieces \<Longrightarrow>
     drawn_at W H centered tape i (assign_masses total_mass w n pieces ! k)
       = drawn_at W H centered tape i (pieces ! k)"
  by (simp add: assign_masses_nth)

lemma drawn_in_order_assign_masses [simp]:
  "drawn_in_order W H centered tape bound (assign_masses total_mass w n pieces)
     = drawn_in_order W H centered tape bound pieces"
proof -
  have "list_all2 (drawn_at W H centered tape) ixs (assign_masses total_mass w n pieces)
      = list_all2 (drawn_at W H centered tape) ixs pieces" for ixs
    by (auto simp: list_all2_conv_all_nth drawn_at_assign_masses_nth)
  then show ?thesis by (simp add: drawn_in_order_def)
qed

lemma gen_pieces_drawn_in_order:
  "gen_pieces ops k W H boat_pos boat_box centered sc pt (pieces, tmp, g)
     = Some (Inr (pieces', tmp', g'))
   \<Longrightarrow> drawn_in_order W H centered (py_tape g) (py_pos g) pieces
   \<Longrightarrow> py_tape g' = py_tape g \<and> np_tape g' = np_tape g
       \<and> drawn_in_order W H centered (py_tape g) (py_pos g') pieces'"
proof (induction k arbitrary: pieces tmp g)
  case 0
  then show ?case by simp
next
  case (Suc k)
  from Suc.prems(1) obtain ps1 tmp1 g1 where
    step: "gen_piece ops W H boat_pos boat_box centered sc pt (pieces, tmp, g)
             = Some (Inr (ps1, tmp1, g1))"
    and rest: "gen_pieces ops k W H boat_pos boat_box centered sc pt (ps1, tmp1, g1)
             = Some (Inr (pieces', tmp', g'))"
    by (auto simp: then_do_eq_Some_Inr)
  from gen_piece_drawn_at [OF step] obtain i t where
    t: "ps1 = pieces @ [t]" "drawn_at W H centered (py_tape g) i t"
       "py_pos g \<le> i" "py_pos g1 = i + 3" "py_tape g1 = py_tape g" "np_tape g1 = np_tape g"
    by blast
  from drawn_in_order_snoc [OF Suc.prems(2) t(2,3)] t(1,4,5)
  have "drawn_in_order W H centered (py_tape g1) (py_pos g1) ps1" by simp
  from Suc.IH [OF rest this] t(5,6) show ?case by simp
qed

lemma gen_bucket_drawn_in_order:
  assumes "gen_bucket ops W H boat_pos boat_box centered mean_scale sc pt (pieces, g)
             = Some (Inr (pieces', g'))"
    and "drawn_in_order W H centered (py_tape g) (py_pos g) pieces"
  shows "py_tape g' = py_tape g \<and> np_tape g' = np_tape g
       \<and> drawn_in_order W H centered (py_tape g) (py_pos g') pieces'"
proof (cases "0 < bucket_n_pieces W H mean_scale sc pt")
  case False
  with assms show ?thesis by (simp add: gen_bucket_def Let_def)
next
  case True
  with assms(1) obtain n g1 ps1 w where
    rnd: "round_n_pieces (bucket_n_pieces W H mean_scale sc pt) g = Inr (n, g1)"
    and gen: "gen_pieces ops (nat n) W H boat_pos boat_box centered sc pt (pieces, 0, g1)
                = Some (Inr (ps1, w, g'))"
    and res: "pieces' = assign_masses
                (bucket_total_mass W H mean_scale sc pt
                   / bucket_n_pieces W H mean_scale sc pt * of_int n) w (nat n) ps1"
    by (auto simp: gen_bucket_def Let_def then_do_eq_Some_Inr split: sum.splits)
  from round_n_pieces_Inr [OF rnd] have g1: "g1 = g\<lparr>np_pos := Suc (np_pos g)\<rparr>" by simp
  with assms(2) have "drawn_in_order W H centered (py_tape g1) (py_pos g1) pieces" by simp
  from gen_pieces_drawn_in_order [OF gen this] g1 show ?thesis
    unfolding res by simp
qed

lemma generate_trash_drawn_in_order:
  assumes "generate_trash ops W H boat_pos boat_box centered mean_scale relevant_size_classes
             False g = Some (Inr (pieces, g'))"
  shows "py_tape g' = py_tape g \<and> np_tape g' = np_tape g
       \<and> drawn_in_order W H centered (py_tape g) (py_pos g') pieces"
proof -
  let ?I = "\<lambda>st. py_tape (snd st) = py_tape g \<and> np_tape (snd st) = np_tape g
       \<and> drawn_in_order W H centered (py_tape g) (py_pos (snd st)) (fst st)"
  have inner: "?I s'"
    if "for_each (gen_bucket ops W H boat_pos boat_box centered mean_scale sc) all_plastic_types s
          = Some (Inr s')" and "?I s" for sc s s'
    using that(1,2)
  proof (rule for_each_invariant [where I = ?I])
    fix pt s s'
    assume "?I s" "gen_bucket ops W H boat_pos boat_box centered mean_scale sc pt s = Some (Inr s')"
    then show "?I s'"
      using gen_bucket_drawn_in_order
        [of ops W H boat_pos boat_box centered mean_scale sc pt "fst s" "snd s" "fst s'" "snd s'"]
      by simp
  qed
  from assms have "for_each
          (\<lambda>sc. for_each (gen_bucket ops W H boat_pos boat_box centered mean_scale sc)
                  all_plastic_types)
          relevant_size_classes ([], g) = Some (Inr (pieces, g'))"
    by (simp add: generate_trash_def)
  then have "?I (pieces, g')"
  proof (rule for_each_invariant [where I = ?I])
    show "?I ([], g)" by simp
  next
    fix sc s s'
    assume "?I s"
      and "for_each (gen_bucket ops W H boat_pos boat_box centered mean_scale sc)
             all_plastic_types s = Some (Inr s')"
    then show "?I s'" by (rule inner [rotated])
  qed
  then show ?thesis by simp
qed

lemma Rep_zero_draw [simp]: "Rep_unit_draw zero_draw = 0"
  by (simp add: zero_draw_def Abs_unit_draw_inverse)

lemma avoid_boat_rejects:
  "hits_boat ops boat_pos boat_box pos \<Longrightarrow>
     avoid_boat ops W H centered boat_pos boat_box pos g
       = avoid_boat ops W H centered boat_pos boat_box
           (fst (draw_pos W H centered g)) (snd (draw_pos W H centered g))"
  by (subst avoid_boat.simps) (simp add: case_prod_beta)

lemma rejecting_bucket_H:
  "gen_bucket exact_ops 1000 1000 (0, 0) (10, 10) False (2 / 5) MEGA PT_H ([], rejecting_rng)
     = Some (Inr ([], rejecting_rng\<lparr>np_pos := Suc 0\<rparr>))"
  by (simp add: gen_bucket_def bucket_n_pieces_def bucket_total_mass_def Let_def
      round_n_pieces_def np_random_choice_def choice_atol_def rejecting_rng_def
      assign_masses_def)

lemma rejecting_piece:
  "gen_piece exact_ops 1000 1000 (0, 0) (10, 10) False MEGA PT_N ([], 0, rejecting_rng\<lparr>np_pos := 2\<rparr>)
     = Some (Inr ([\<lparr>trash_x = 500, trash_y = 500,
                     trash_size = 10 powr (log 10 50 + (log 10 200 - log 10 50) * (1 / 2)) / 100,
                     trash_mass = 0, trash_density = 920, trash_size_class = MEGA,
                     trash_plastic_type = PT_N\<rparr>],
                   920 * (10 powr (log 10 50 + (log 10 200 - log 10 50) * (1 / 2)) / 100) ^ 3,
                   rejecting_rng\<lparr>py_pos := 5, np_pos := 3\<rparr>))"
  by (simp add: gen_piece_def draw_pos_def pos_range_def random_uniform_def Let_def
      rejecting_rng_def avoid_boat_rejects avoid_boat_accepts hits_boat_def
      np_random_choice_def choice_atol_def material_densities_def)

lemma rejecting_bucket_N:
  "gen_bucket exact_ops 1000 1000 (0, 0) (10, 10) False (2 / 5) MEGA PT_N ([], rejecting_rng\<lparr>np_pos := Suc 0\<rparr>)
     = Some (Inr ([\<lparr>trash_x = 500, trash_y = 500,
                     trash_size = 10 powr (log 10 50 + (log 10 200 - log 10 50) * (1 / 2)) / 100,
                     trash_mass = 2141 / 165, trash_density = 920, trash_size_class = MEGA,
                     trash_plastic_type = PT_N\<rparr>],
                   rejecting_rng\<lparr>py_pos := 5, np_pos := 3\<rparr>))"
proof -
  have r: "round_n_pieces (33 / 25) (rejecting_rng\<lparr>np_pos := Suc 0\<rparr>)
             = Inr (1, rejecting_rng\<lparr>np_pos := 2\<rparr>)"
    by (simp add: round_n_pieces_def np_random_choice_def choice_atol_def rejecting_rng_def
        Let_def)
  show ?thesis
    by (simp add: gen_bucket_def bucket_n_pieces_def bucket_total_mass_def Let_def r
        rejecting_piece assign_masses_def set_mass_def)
qed

lemma rejecting_run:
  "generate_trash exact_ops 1000 1000 (0, 0) (10, 10) False (2 / 5) [MEGA] False rejecting_rng
     = Some (Inr ([\<lparr>trash_x = 500, trash_y = 500,
                     trash_size = 10 powr (log 10 50 + (log 10 200 - log 10 50) * (1 / 2)) / 100,
                     trash_mass = 2141 / 165, trash_density = 920, trash_size_class = MEGA,
                     trash_plastic_type = PT_N\<rparr>],
                   rejecting_rng\<lparr>py_pos := 5, np_pos := 3\<rparr>))"
  by (simp add: generate_trash_def all_plastic_types_def rejecting_bucket_H rejecting_bucket_N
      gen_bucket_skips bucket_n_pieces_def)

lemma border_bucket_H:
  "gen_bucket exact_ops 1000 1000 (0, 0) (1000, 1000) False (2 / 5) MEGA PT_H ([], fixed_rng)
     = Some (Inr ([], fixed_rng\<lparr>np_pos := Suc 0\<rparr>))"
  by (simp add: gen_bucket_def bucket_n_pieces_def bucket_total_mass_def Let_def
      round_n_pieces_def np_random_choice_def choice_atol_def fixed_rng_def
      assign_masses_def)

lemma border_piece:
  "gen_piece exact_ops 1000 1000 (0, 0) (1000, 1000) False MEGA PT_N
       ([], 0, fixed_rng\<lparr>np_pos := 2\<rparr>)
     = Some (Inr ([\<lparr>trash_x = 500, trash_y = 500,
                     trash_size = 10 powr (log 10 50 + (log 10 200 - log 10 50) * (1 / 2)) / 100,
                     trash_mass = 0, trash_density = 920, trash_size_class = MEGA,
                     trash_plastic_type = PT_N\<rparr>],
                   920 * (10 powr (log 10 50 + (log 10 200 - log 10 50) * (1 / 2)) / 100) ^ 3,
                   fixed_rng\<lparr>py_pos := 3, np_pos := 3\<rparr>))"
  by (simp add: gen_piece_def draw_pos_def pos_range_def random_uniform_def Let_def
      fixed_rng_def avoid_boat_accepts hits_boat_def
      np_random_choice_def choice_atol_def material_densities_def)

lemma border_bucket_N:
  "gen_bucket exact_ops 1000 1000 (0, 0) (1000, 1000) False (2 / 5) MEGA PT_N
       ([], fixed_rng\<lparr>np_pos := Suc 0\<rparr>)
     = Some (Inr ([\<lparr>trash_x = 500, trash_y = 500,
                     trash_size = 10 powr (log 10 50 + (log 10 200 - log 10 50) * (1 / 2)) / 100,
                     trash_mass = 2141 / 165, trash_density = 920, trash_size_class = MEGA,
                     trash_plastic_type = PT_N\<rparr>],
                   fixed_rng\<lparr>py_pos := 3, np_pos := 3\<rparr>))"
proof -
  have r: "round_n_pieces (33 / 25) (fixed_rng\<lparr>np_pos := Suc 0\<rparr>)
             = Inr (1, fixed_rng\<lparr>np_pos := 2\<rparr>)"
    by (simp add: round_n_pieces_def np_random_choice_def choice_atol_def fixed_rng_def
        Let_def)
  show ?thesis
    by (simp add: gen_bucket_def bucket_n_pieces_def bucket_total_mass_def Let_def r
        border_piece assign_masses_def set_mass_def)
qed

lemma Rep_dyadic_draw [simp]: "Rep_unit_draw (dyadic_draw i) = 1 / 2 ^ Suc i"
proof -
  have "(1 :: real) < 2 ^ Suc i" by (rule one_less_power) simp_all
  then have "(1 :: real) / 2 ^ Suc i < 1" by simp
  then show ?thesis by (simp add: dyadic_draw_def Abs_unit_draw_inverse)
qed

lemma Rep_high_draw [simp]: "Rep_unit_draw high_draw = 127 / 128"
  by (simp add: high_draw_def Abs_unit_draw_inverse)

lemma dyadic_piece:
  assumes "(sc, pt) = (MACRO, PT_H) \<or> (sc, pt) = (MACRO, PT_N) \<or> (sc, pt) = (MEGA, PT_N)"
  shows "gen_piece exact_ops 100 100 (0, 0) (0, 0) False sc pt (ps, w, dyadic_rng a b)
     = Some (Inr (ps @ [\<lparr>trash_x = 100 / 2 ^ Suc a, trash_y = 100 / 2 ^ Suc (Suc a),
                          trash_size = size_at sc dyadic_draw (Suc (Suc a)),
                          trash_mass = 0, trash_density = 1801 / 2, trash_size_class = sc,
                          trash_plastic_type = pt\<rparr>],
                   w + 1801 / 2 * size_at sc dyadic_draw (Suc (Suc a)) ^ 3,
                   dyadic_rng (Suc (Suc (Suc a))) (Suc b)))"
  using assms
  by (auto simp: gen_piece_def draw_pos_def pos_range_def random_uniform_def Let_def
      dyadic_rng_def avoid_boat_accepts hits_boat_def size_at_def
      np_random_choice_def choice_atol_def material_densities_def)

lemma dyadic_bucket_none:
  assumes "(sc, pt) = (MEGA, PT_H) \<or> (sc, pt) = (MACRO, PT_F)"
  shows "gen_bucket exact_ops 100 100 (0, 0) (0, 0) False (2 / 5) sc pt (ps, dyadic_rng a b)
     = Some (Inr (ps, dyadic_rng a (b + 1)))"
  using assms
  by (auto simp: gen_bucket_def bucket_n_pieces_def bucket_total_mass_def Let_def
      round_n_pieces_def np_random_choice_def choice_atol_def dyadic_rng_def
      assign_masses_def)

lemma assign_masses_one:
  "assign_masses total_mass w (Suc 0) (ps @ [x]) = ps @ [set_mass total_mass w x]"
  using assign_masses_append [of total_mass w "[x]" ps] by simp

lemma assign_masses_three:
  "assign_masses total_mass w (Suc (Suc (Suc 0))) (ps @ [x, y, z])
     = ps @ [set_mass total_mass w x, set_mass total_mass w y, set_mass total_mass w z]"
  using assign_masses_append [of total_mass w "[x, y, z]" ps] by simp

lemma dyadic_bucket_one:
  assumes "(sc, pt) = (MEGA, PT_N) \<or> (sc, pt) = (MACRO, PT_N)"
  shows "\<exists>t. gen_bucket exact_ops 100 100 (0, 0) (0, 0) False (2 / 5) sc pt (ps, dyadic_rng a b)
       = Some (Inr (ps @ [t], dyadic_rng (a + 3) (b + 2)))
     \<and> (trash_x t, trash_y t) = (100 / 2 ^ (a + 1), 100 / 2 ^ (a + 2))
     \<and> (trash_size_class t, trash_plastic_type t) = (sc, pt)"
proof -
  let ?N = "bucket_n_pieces 100 100 (2 / 5) sc pt"
  have r: "round_n_pieces ?N (dyadic_rng a b) = Inr (1, dyadic_rng a (Suc b))"
    using assms
    by (auto simp: bucket_n_pieces_def round_n_pieces_def np_random_choice_def choice_atol_def
        dyadic_rng_def Let_def)
  have pos: "0 < ?N" using assms by (auto simp: bucket_n_pieces_def)
  have k: "(sc, pt) = (MACRO, PT_H) \<or> (sc, pt) = (MACRO, PT_N) \<or> (sc, pt) = (MEGA, PT_N)"
    using assms by blast
  have e: "a + 3 = Suc (Suc (Suc a))" "b + 2 = Suc (Suc b)" "a + 2 = Suc (Suc a)"
    by simp_all
  show ?thesis
    using pos
    by (simp add: gen_bucket_def Let_def r dyadic_piece [OF k] assign_masses_one set_mass_def e)
qed

lemma dyadic_bucket_three:
  "\<exists>t1 t2 t3.
       gen_bucket exact_ops 100 100 (0, 0) (0, 0) False (2 / 5) MACRO PT_H (ps, dyadic_rng a b)
       = Some (Inr (ps @ [t1, t2, t3], dyadic_rng (a + 9) (b + 4)))
     \<and> map (\<lambda>t. (trash_x t, trash_y t)) [t1, t2, t3]
         = [(100 / 2 ^ (a + 1), 100 / 2 ^ (a + 2)), (100 / 2 ^ (a + 4), 100 / 2 ^ (a + 5)),
            (100 / 2 ^ (a + 7), 100 / 2 ^ (a + 8))]
     \<and> map (\<lambda>t. (trash_size_class t, trash_plastic_type t)) [t1, t2, t3]
         = [(MACRO, PT_H), (MACRO, PT_H), (MACRO, PT_H)]"
proof -
  let ?N = "bucket_n_pieces 100 100 (2 / 5) MACRO PT_H"
  have r: "round_n_pieces ?N (dyadic_rng a b) = Inr (3, dyadic_rng a (Suc b))"
    by (simp add: bucket_n_pieces_def round_n_pieces_def np_random_choice_def choice_atol_def
        dyadic_rng_def Let_def)
  have pos: "0 < ?N" by (simp add: bucket_n_pieces_def)
  have three: "nat 3 = Suc (Suc (Suc 0))" by simp
  have e: "a + 9 = Suc (Suc (Suc (Suc (Suc (Suc (Suc (Suc (Suc a))))))))"
    "b + 4 = Suc (Suc (Suc (Suc b)))" "a + 8 = Suc (Suc (Suc (Suc (Suc (Suc (Suc (Suc a)))))))"
    "a + 7 = Suc (Suc (Suc (Suc (Suc (Suc (Suc a))))))" "a + 5 = Suc (Suc (Suc (Suc (Suc a))))"
    "a + 4 = Suc (Suc (Suc (Suc a)))" "a + 2 = Suc (Suc a)"
    by simp_all
  show ?thesis
    using pos
    by (simp add: gen_bucket_def Let_def r numeral_3_eq_3 dyadic_piece assign_masses_three
        set_mass_def e)
qed


lemma dyadic_run_MEGA_MACRO:
  "\<exists>p. generate_trash exact_ops 100 100 (0, 0) (0, 0) False (2 / 5) [MEGA, MACRO] False
            (dyadic_rng 0 0)
          = Some (Inr (p, dyadic_rng 15 10))
       \<and> map (\<lambda>t. (trash_size_class t, trash_plastic_type t)) p
           = [(MEGA, PT_N), (MACRO, PT_H), (MACRO, PT_H), (MACRO, PT_H), (MACRO, PT_N)]
       \<and> map (\<lambda>t. (trash_x t, trash_y t)) p
           = [(50, 25), (25 / 4, 25 / 8), (25 / 32, 25 / 64), (25 / 256, 25 / 512),
              (25 / 2048, 25 / 4096)]"
proof -
  from dyadic_bucket_one [of MEGA PT_N "[]" 0 1] obtain t1 where
    b1: "gen_bucket exact_ops 100 100 (0, 0) (0, 0) False (2 / 5) MEGA PT_N ([], dyadic_rng 0 1)
          = Some (Inr ([t1], dyadic_rng 3 3))"
    and t1: "(trash_x t1, trash_y t1) = (50, 25)"
      "(trash_size_class t1, trash_plastic_type t1) = (MEGA, PT_N)"
    by (auto simp del: One_nat_def)
  from dyadic_bucket_three [of "[t1]" 3 3] obtain t2 t3 t4 where
    b2: "gen_bucket exact_ops 100 100 (0, 0) (0, 0) False (2 / 5) MACRO PT_H ([t1], dyadic_rng 3 3)
          = Some (Inr ([t1, t2, t3, t4], dyadic_rng 12 7))"
    and t2: "map (\<lambda>t. (trash_x t, trash_y t)) [t2, t3, t4]
         = [(25 / 4, 25 / 8), (25 / 32, 25 / 64), (25 / 256, 25 / 512)]"
      "map (\<lambda>t. (trash_size_class t, trash_plastic_type t)) [t2, t3, t4]
         = [(MACRO, PT_H), (MACRO, PT_H), (MACRO, PT_H)]"
    by (auto simp del: One_nat_def)
  from dyadic_bucket_one [of MACRO PT_N "[t1, t2, t3, t4]" 12 7] obtain t5 where
    b3: "gen_bucket exact_ops 100 100 (0, 0) (0, 0) False (2 / 5) MACRO PT_N
           ([t1, t2, t3, t4], dyadic_rng 12 7)
          = Some (Inr ([t1, t2, t3, t4, t5], dyadic_rng 15 9))"
    and t5: "(trash_x t5, trash_y t5) = (25 / 2048, 25 / 4096)"
      "(trash_size_class t5, trash_plastic_type t5) = (MACRO, PT_N)"
    by (auto simp del: One_nat_def)
  have b0: "gen_bucket exact_ops 100 100 (0, 0) (0, 0) False (2 / 5) MEGA PT_H ([], dyadic_rng 0 0)
          = Some (Inr ([], dyadic_rng 0 1))"
    using dyadic_bucket_none [of MEGA PT_H "[]" 0 0] by (simp del: One_nat_def)
  have b4: "gen_bucket exact_ops 100 100 (0, 0) (0, 0) False (2 / 5) MACRO PT_F
           ([t1, t2, t3, t4, t5], dyadic_rng 15 9)
          = Some (Inr ([t1, t2, t3, t4, t5], dyadic_rng 15 10))"
    using dyadic_bucket_none [of MACRO PT_F "[t1, t2, t3, t4, t5]" 15 9]
    by (simp del: One_nat_def)
  have "generate_trash exact_ops 100 100 (0, 0) (0, 0) False (2 / 5) [MEGA, MACRO] False
            (dyadic_rng 0 0)
          = Some (Inr ([t1, t2, t3, t4, t5], dyadic_rng 15 10))"
    by (simp add: generate_trash_def all_plastic_types_def b0 b1 b2 b3 b4
        gen_bucket_skips bucket_n_pieces_def del: One_nat_def)
  with t1 t2 t5 show ?thesis by auto
qed

lemma piece_key_set_mass [simp]: "piece_key (set_mass total_mass w t) = piece_key t"
  by (simp add: piece_key_def set_mass_def)

lemma gen_bucket_appends:
  assumes "gen_bucket ops W H boat_pos boat_box centered mean_scale sc pt (pieces, g)
             = Some (Inr (pieces', g'))"
  shows "\<exists>new. pieces' = pieces @ new \<and> list_all (\<lambda>t. piece_key t = (sc, pt)) new"
proof (cases "0 < bucket_n_pieces W H mean_scale sc pt")
  case False
  with assms show ?thesis by (simp add: gen_bucket_def Let_def)
next
  case True
  with assms obtain n g1 ps1 w where
    gen: "gen_pieces ops (nat n) W H boat_pos boat_box centered sc pt (pieces, 0, g1)
                = Some (Inr (ps1, w, g'))"
    and res: "pieces' = assign_masses
                (bucket_total_mass W H mean_scale sc pt
                   / bucket_n_pieces W H mean_scale sc pt * of_int n) w (nat n) ps1"
    by (auto simp: gen_bucket_def Let_def then_do_eq_Some_Inr split: sum.splits)
  from gen_pieces_appends [OF gen] obtain raw where
    raw: "ps1 = pieces @ raw" "length raw = nat n"
         "\<forall>t\<in>set raw. trash_mass t = 0 \<and> trash_size_class t = sc
               \<and> trash_plastic_type t = pt \<and> 0 < trash_density t \<and> 0 < trash_size t"
    by auto
  let ?f = "set_mass (bucket_total_mass W H mean_scale sc pt
                   / bucket_n_pieces W H mean_scale sc pt * of_int n) w"
  have "pieces' = pieces @ map ?f raw"
    using res raw(1,2) assign_masses_append [of _ w raw pieces] by simp
  moreover have "list_all (\<lambda>t. piece_key t = (sc, pt)) (map ?f raw)"
    using raw(3) by (auto simp: list_all_iff piece_key_def set_mass_def)
  ultimately show ?thesis by blast
qed

lemma for_each_segments:
  assumes "for_each body vs st = Some (Inr st')"
    and "\<And>v s s'. v \<in> set vs \<Longrightarrow> body v s = Some (Inr s')
            \<Longrightarrow> \<exists>seg. out s' = out s @ seg \<and> R v seg"
  shows "\<exists>segs. out st' = out st @ concat segs \<and> list_all2 R vs segs"
  using assms
proof (induction vs arbitrary: st)
  case Nil
  then show ?case by simp
next
  case (Cons v vs)
  from Cons.prems(1) obtain s1 where
    s1: "body v st = Some (Inr s1)" "for_each body vs s1 = Some (Inr st')"
    by (auto simp: then_do_eq_Some_Inr)
  from Cons.prems(2) [OF _ s1(1)] obtain seg where
    seg: "out s1 = out st @ seg" "R v seg" by auto
  have "\<exists>segs. out st' = out s1 @ concat segs \<and> list_all2 R vs segs"
  proof (rule Cons.IH [OF s1(2)])
    fix w s s'
    assume "w \<in> set vs" "body w s = Some (Inr s')"
    then show "\<exists>seg. out s' = out s @ seg \<and> R w seg"
      using Cons.prems(2) [of w s s'] by simp
  qed
  then obtain segs where segs: "out st' = out s1 @ concat segs" "list_all2 R vs segs"
    by blast
  show ?case
    by (rule exI [of _ "seg # segs"]) (use seg segs in simp)
qed

lemma flatten_segments:
  assumes "list_all2 (\<lambda>v seg. \<exists>segs. seg = concat segs \<and> list_all2 R (f v) segs) vs outer"
  shows "\<exists>flat. concat outer = concat flat \<and> list_all2 R (concat (map f vs)) flat"
  using assms
proof (induction rule: list_all2_induct)
  case Nil
  show ?case by (rule exI [of _ "[]"]) simp
next
  case (Cons v vs seg outer)
  from Cons.hyps(1) obtain segs where
    segs: "seg = concat segs" "list_all2 R (f v) segs" by blast
  from Cons.IH obtain flat where
    flat: "concat outer = concat flat" "list_all2 R (concat (map f vs)) flat" by blast
  show ?case
    by (rule exI [of _ "segs @ flat"]) (use segs flat in \<open>simp add: list_all2_appendI\<close>)
qed

lemma generate_trash_grouped:
  assumes "generate_trash ops W H boat_pos boat_box centered mean_scale relevant_size_classes
             False g = Some (Inr (pieces, g'))"
  shows "\<exists>segs. pieces = concat segs
           \<and> list_all2 (\<lambda>b seg. list_all (\<lambda>t. piece_key t = b) seg)
                (bucket_order relevant_size_classes) segs"
proof -
  let ?R = "\<lambda>b seg. list_all (\<lambda>t. piece_key t = b) seg"
  have inner: "\<exists>seg. fst s' = fst s @ seg
        \<and> (\<exists>segs. seg = concat segs \<and> list_all2 ?R (map (Pair sc) all_plastic_types) segs)"
    if run: "for_each (gen_bucket ops W H boat_pos boat_box centered mean_scale sc)
               all_plastic_types s = Some (Inr s')" for sc s s'
  proof -
    have "\<exists>segs. fst s' = fst s @ concat segs
            \<and> list_all2 (\<lambda>pt seg. ?R (sc, pt) seg) all_plastic_types segs"
      using run
    proof (rule for_each_segments)
      fix pt s s'
      assume "gen_bucket ops W H boat_pos boat_box centered mean_scale sc pt s = Some (Inr s')"
      then show "\<exists>seg. fst s' = fst s @ seg \<and> ?R (sc, pt) seg"
        using gen_bucket_appends
          [of ops W H boat_pos boat_box centered mean_scale sc pt "fst s" "snd s" "fst s'" "snd s'"]
        by simp
    qed
    then show ?thesis by (auto simp: list_all2_map1)
  qed
  from assms have "for_each
          (\<lambda>sc. for_each (gen_bucket ops W H boat_pos boat_box centered mean_scale sc)
                  all_plastic_types)
          relevant_size_classes ([], g) = Some (Inr (pieces, g'))"
    by (simp add: generate_trash_def)
  then have "\<exists>outer. fst (pieces, g') = fst ([]::Trash list, g) @ concat outer
       \<and> list_all2 (\<lambda>sc seg. \<exists>segs. seg = concat segs
              \<and> list_all2 ?R (map (Pair sc) all_plastic_types) segs)
            relevant_size_classes outer"
    by (rule for_each_segments) (rule inner)
  then obtain outer where
    outer: "pieces = concat outer"
      "list_all2 (\<lambda>sc seg. \<exists>segs. seg = concat segs
              \<and> list_all2 ?R (map (Pair sc) all_plastic_types) segs)
            relevant_size_classes outer"
    by auto
  from flatten_segments [OF outer(2)] outer(1) show ?thesis
    by (auto simp: bucket_order_def)
qed

section \<open>Rounding of the target count\<close>

text \<open>C2: the realized count is the floor or the ceiling of the target count, the floor
  exactly when the unit draw is below \<open>1 - frac\<close> (lemmas \<open>round_n_pieces_fractional\<close> and
  \<open>gen_bucket_count\<close>, for a target that is not an integer). For an integer target the
  claim says the draw yields that integer; the code passes the probabilities \<open>(1, 1)\<close> to
  \<open>np.random.choice\<close>, which raises \<open>ValueError\<close>. With width and height 1000 and scale 1
  the target of the bucket MESO/H is exactly 20993, and the call raises.\<close>

theorem integer_target_raises:
  "generate_trash ops 1000 1000 (0, 0) (0, 0) False 1 [MESO, MACRO, MEGA] False g
     = Some (Inl ValueError)"
proof -
  have N: "bucket_n_pieces 1000 1000 1 MESO PT_H = 20993"
    by (simp add: bucket_n_pieces_def)
  have "gen_bucket ops 1000 1000 (0, 0) (0, 0) False 1 MESO PT_H ([], g) = Some (Inl ValueError)"
    by (rule gen_bucket_integer_raises) (simp_all add: N)
  then show ?thesis
    by (simp add: generate_trash_def all_plastic_types_def)
qed

section \<open>Positions and the boat's box\<close>

text \<open>C4, as stated: every piece lies strictly outside the rectangle. This fails on the
  border: the loop redraws a position only when it is strictly inside on both axes, so a
  position on an edge is kept. With the box of width and height 1000 around the origin
  and every unit draw 1/2, the call returns one piece, placed at (500, 500), a corner of
  the rectangle: it is in the closed rectangle, not strictly outside it.\<close>

theorem border_position_accepted:
  "\<exists>pieces g'.
      generate_trash exact_ops 1000 1000 (0, 0) (1000, 1000) False (2 / 5) [MEGA] False fixed_rng
        = Some (Inr (pieces, g'))
    \<and> map (\<lambda>t. (trash_x t, trash_y t)) pieces = [(500, 500)]
    \<and> list_ex (\<lambda>t. 0 - 1000 / 2 \<le> trash_x t \<and> trash_x t \<le> 0 + 1000 / 2
                    \<and> 0 - 1000 / 2 \<le> trash_y t \<and> trash_y t \<le> 0 + 1000 / 2) pieces"
proof -
  have "generate_trash exact_ops 1000 1000 (0, 0) (1000, 1000) False (2 / 5) [MEGA] False fixed_rng
     = Some (Inr ([\<lparr>trash_x = 500, trash_y = 500,
          trash_size = 10 powr (log 10 50 + (log 10 200 - log 10 50) * (1 / 2)) / 100,
          trash_mass = 2141 / 165, trash_density = 920, trash_size_class = MEGA,
          trash_plastic_type = PT_N\<rparr>],
                  fixed_rng\<lparr>py_pos := 3, np_pos := 3\<rparr>))"
    by (simp add: generate_trash_def all_plastic_types_def border_bucket_H border_bucket_N
        gen_bucket_skips bucket_n_pieces_def)
  then show ?thesis by simp
qed

text \<open>C4, amended: no piece returned by the stochastic path is strictly between the
  computed edges \<open>boat_pos[k] - boat_box[k]/2\<close> and \<open>boat_pos[k] + boat_box[k]/2\<close> on both
  axes, whatever the rounding of the three operations that compute the edges; a position
  on an edge is accepted, so a piece can lie on the border of the rectangle. A candidate
  position is kept as it is exactly when it is not strictly between the computed edges on
  both axes. When the box has zero width or zero height (and \<open>0 / 2\<close>, \<open>b - 0\<close> and \<open>b + 0\<close>
  are computed exactly, as they are on doubles) every candidate is kept at once, without
  a second draw.\<close>

theorem positions_outside_boat:
  "(generate_trash ops W H boat_pos boat_box centered mean_scale relevant_size_classes False g
      = Some (Inr (pieces, g'))
    \<longrightarrow> list_all (\<lambda>t. \<not> (f_sub ops (fst boat_pos) (f_div ops (fst boat_box) 2) < trash_x t
                         \<and> trash_x t < f_add ops (fst boat_pos) (f_div ops (fst boat_box) 2)
                         \<and> f_sub ops (snd boat_pos) (f_div ops (snd boat_box) 2) < trash_y t
                         \<and> trash_y t < f_add ops (snd boat_pos) (f_div ops (snd boat_box) 2)))
          pieces)
   \<and> (avoid_boat ops W H centered boat_pos boat_box pos g = Some (pos, g)
        \<longleftrightarrow> \<not> hits_boat ops boat_pos boat_box pos)
   \<and> (exact_at_zero ops \<and> (fst boat_box = 0 \<or> snd boat_box = 0)
        \<longrightarrow> avoid_boat ops W H centered boat_pos boat_box pos g = Some (pos, g))"
proof (intro conjI impI)
  assume "generate_trash ops W H boat_pos boat_box centered mean_scale relevant_size_classes
            False g = Some (Inr (pieces, g'))"
  from generate_trash_outside_boat [OF this]
  show "list_all (\<lambda>t. \<not> (f_sub ops (fst boat_pos) (f_div ops (fst boat_box) 2) < trash_x t
                         \<and> trash_x t < f_add ops (fst boat_pos) (f_div ops (fst boat_box) 2)
                         \<and> f_sub ops (snd boat_pos) (f_div ops (snd boat_box) 2) < trash_y t
                         \<and> trash_y t < f_add ops (snd boat_pos) (f_div ops (snd boat_box) 2)))
          pieces"
    by (simp add: outside_boat_def hits_boat_def list_all_iff)
next
  show "avoid_boat ops W H centered boat_pos boat_box pos g = Some (pos, g)
        \<longleftrightarrow> \<not> hits_boat ops boat_pos boat_box pos"
    using avoid_boat_not_hit [of ops W H centered boat_pos boat_box pos g pos g]
      avoid_boat_accepts [of ops boat_pos boat_box pos W H centered g]
    by blast
next
  assume "exact_at_zero ops \<and> (fst boat_box = 0 \<or> snd boat_box = 0)"
  then have "\<not> hits_boat ops boat_pos boat_box pos"
    by (simp add: hits_boat_degenerate)
  from avoid_boat_accepts [OF this]
  show "avoid_boat ops W H centered boat_pos boat_box pos g = Some (pos, g)" .
qed

theorem positions_outside_boat_witness:
  "(\<exists>pieces g'.
       generate_trash exact_ops 1000 1000 (0, 0) (10, 10) False (2 / 5) [MEGA] False rejecting_rng
         = Some (Inr (pieces, g'))
     \<and> map (\<lambda>t. (trash_x t, trash_y t)) pieces = [(500, 500)]
     \<and> list_all (\<lambda>t. \<not> (0 - 10 / 2 < trash_x t \<and> trash_x t < 0 + 10 / 2
                         \<and> 0 - 10 / 2 < trash_y t \<and> trash_y t < 0 + 10 / 2)) pieces)
   \<and> hits_boat exact_ops (0, 0) (10, 10) (fst (draw_pos 1000 1000 False rejecting_rng))
   \<and> avoid_boat exact_ops 1000 1000 False (0, 0) (10, 10) (500, 500) fixed_rng
       = Some ((500, 500), fixed_rng)
   \<and> exact_at_zero exact_ops
   \<and> avoid_boat exact_ops 1000 1000 False (3, 4) (0, 10) (3, 4) fixed_rng
       = Some ((3, 4), fixed_rng)"
proof -
  note run = rejecting_run
  have first: "hits_boat exact_ops (0, 0) (10, 10) (fst (draw_pos 1000 1000 False rejecting_rng))"
    by (simp add: hits_boat_def draw_pos_def pos_range_def random_uniform_def rejecting_rng_def
        Let_def)
  have box: "exact_at_zero exact_ops
      \<and> (fst ((0, 10) :: real \<times> real) = 0 \<or> snd ((0, 10) :: real \<times> real) = 0)"
    by (simp add: exact_at_zero_exact_ops)
  from positions_outside_boat
    [of exact_ops 1000 1000 "(0, 0)" "(10, 10)" False "2 / 5" "[MEGA]" rejecting_rng _ _ "(0, 0)",
     THEN conjunct1, rule_format, OF run]
  have a: "list_all (\<lambda>t. \<not> (0 - 10 / 2 < trash_x t \<and> trash_x t < 0 + 10 / 2
                       \<and> 0 - 10 / 2 < trash_y t \<and> trash_y t < 0 + 10 / 2))
        [\<lparr>trash_x = 500, trash_y = 500,
          trash_size = 10 powr (log 10 50 + (log 10 200 - log 10 50) * (1 / 2)) / 100,
          trash_mass = 2141 / 165, trash_density = 920, trash_size_class = MEGA,
          trash_plastic_type = PT_N\<rparr>]"
    by simp
  have ex: "\<exists>pieces g'.
       generate_trash exact_ops 1000 1000 (0, 0) (10, 10) False (2 / 5) [MEGA] False rejecting_rng
         = Some (Inr (pieces, g'))
     \<and> map (\<lambda>t. (trash_x t, trash_y t)) pieces = [(500, 500)]
     \<and> list_all (\<lambda>t. \<not> (0 - 10 / 2 < trash_x t \<and> trash_x t < 0 + 10 / 2
                         \<and> 0 - 10 / 2 < trash_y t \<and> trash_y t < 0 + 10 / 2)) pieces"
    using a by (simp add: run)
  have out: "\<not> hits_boat exact_ops (0, 0) (10, 10) (500, 500)"
    by (simp add: hits_boat_def)
  from positions_outside_boat
    [of exact_ops 1000 1000 "(0, 0)" "(10, 10)" False 1 "[]" fixed_rng "[]" fixed_rng "(500, 500)",
     THEN conjunct2, THEN conjunct1] out
  have c: "avoid_boat exact_ops 1000 1000 False (0, 0) (10, 10) (500, 500) fixed_rng
             = Some ((500, 500), fixed_rng)" by (rule iffD2)
  from positions_outside_boat
    [of exact_ops 1000 1000 "(3, 4)" "(0, 10)" False 1 "[]" fixed_rng "[]" fixed_rng "(3, 4)",
     THEN conjunct2, THEN conjunct2, rule_format, OF box]
  have b: "avoid_boat exact_ops 1000 1000 False (3, 4) (0, 10) (3, 4) fixed_rng
             = Some ((3, 4), fixed_rng)" .
  from ex first c b exact_at_zero_exact_ops show ?thesis by (intro conjI)
qed

section \<open>Order of the returned pieces\<close>

text \<open>C10: the list returned by the stochastic path is the concatenation of one segment
  per bucket, the buckets taken in the order of \<open>relevant_size_classes\<close> and, within a size
  class, in the order H, N, P, F; each segment holds pieces of its bucket only; and the
  pieces stand in the order in which they were drawn (their draws sit at strictly
  increasing positions of the generator's tape).\<close>

theorem pieces_grouped_by_bucket:
  assumes "generate_trash ops W H boat_pos boat_box centered mean_scale relevant_size_classes
             False g = Some (Inr (pieces, g'))"
  shows "(\<exists>segs. pieces = concat segs
            \<and> list_all2 (\<lambda>b seg. list_all (\<lambda>t. (trash_size_class t, trash_plastic_type t) = b) seg)
                 (concat (map (\<lambda>sc. map (Pair sc) [PT_H, PT_N, PT_P, PT_F])
                    relevant_size_classes))
                 segs)
         \<and> drawn_in_order W H centered (py_tape g) (py_pos g') pieces"
  using generate_trash_grouped [OF assms] generate_trash_drawn_in_order [OF assms]
  by (simp add: bucket_order_def all_plastic_types_def piece_key_def)

theorem pieces_grouped_by_bucket_witness:
  "\<exists>pieces g'.
      generate_trash exact_ops 100 100 (0, 0) (0, 0) False (2 / 5) [MEGA, MACRO] False
          (dyadic_rng 0 0)
        = Some (Inr (pieces, g'))
    \<and> map (\<lambda>t. (trash_size_class t, trash_plastic_type t)) pieces
        = [(MEGA, PT_N), (MACRO, PT_H), (MACRO, PT_H), (MACRO, PT_H), (MACRO, PT_N)]
    \<and> map (\<lambda>t. (trash_x t, trash_y t)) pieces
        = [(50, 25), (25 / 4, 25 / 8), (25 / 32, 25 / 64), (25 / 256, 25 / 512),
           (25 / 2048, 25 / 4096)]
    \<and> (\<exists>segs. pieces = concat segs
          \<and> list_all2 (\<lambda>b seg. list_all (\<lambda>t. (trash_size_class t, trash_plastic_type t) = b) seg)
               (concat (map (\<lambda>sc. map (Pair sc) [PT_H, PT_N, PT_P, PT_F]) [MEGA, MACRO]))
               segs)
    \<and> drawn_in_order 100 100 False (py_tape (dyadic_rng 0 0)) (py_pos g') pieces"
proof -
  from dyadic_run_MEGA_MACRO obtain p where
    run: "generate_trash exact_ops 100 100 (0, 0) (0, 0) False (2 / 5) [MEGA, MACRO] False
            (dyadic_rng 0 0)
          = Some (Inr (p, dyadic_rng 15 10))"
    and keys: "map (\<lambda>t. (trash_size_class t, trash_plastic_type t)) p
           = [(MEGA, PT_N), (MACRO, PT_H), (MACRO, PT_H), (MACRO, PT_H), (MACRO, PT_N)]"
    and places: "map (\<lambda>t. (trash_x t, trash_y t)) p
           = [(50, 25), (25 / 4, 25 / 8), (25 / 32, 25 / 64), (25 / 256, 25 / 512),
              (25 / 2048, 25 / 4096)]"
    by (elim exE conjE) (rule that)
  note grouped = pieces_grouped_by_bucket [OF run]
  show ?thesis
    by (intro exI [of _ p] exI [of _ "dyadic_rng 15 10"] conjI run keys places
        grouped [THEN conjunct1] grouped [THEN conjunct2])
qed

section \<open>Errors the loops can raise\<close>

lemma np_random_choice_Inl:
  "np_random_choice a p g = Inl e \<Longrightarrow> e = ValueError \<or> e = IndexError"
  by (auto simp: np_random_choice_def Let_def split: if_splits)

lemma gen_piece_no_KeyError:
  assumes "plastic_materials sc pt \<noteq> None"
  shows "gen_piece ops W H boat_pos boat_box centered sc pt st \<noteq> Some (Inl KeyError)"
proof -
  obtain pieces tmp g where st: "st = (pieces, tmp, g)" by (cases st) auto
  obtain pos0 g1 where d: "draw_pos W H centered g = (pos0, g1)" by (rule draw_pos_cases)
  from assms obtain mats where ms: "plastic_materials sc pt = Some mats" by auto
  from plastic_materials_entries [OF ms]
  have ent: "\<forall>m\<in>set mats. fst m \<in> {''PE'', ''PP'', ''PS'', ''PVC''}" by blast
  show ?thesis
  proof (cases "avoid_boat ops W H centered boat_pos boat_box pos0 g1")
    case None
    then show ?thesis by (simp add: gen_piece_def st d)
  next
    case (Some r)
    obtain pos g2 where r: "r = (pos, g2)" by (cases r) auto
    obtain u g3 where
      u: "random_uniform (log 10 (fst (size_ranges sc))) (log 10 (snd (size_ranges sc))) g2
            = (u, g3)"
      by (cases "random_uniform (log 10 (fst (size_ranges sc))) (log 10 (snd (size_ranges sc))) g2")
    let ?c = "np_random_choice (map fst mats)
       (map (\<lambda>q. q / sum_list (map snd mats)) (map snd mats)) g3"
    show ?thesis
    proof (cases ?c)
      case (Inl e)
      with np_random_choice_Inl [OF Inl] show ?thesis
        by (auto simp: gen_piece_def st d Some r u ms Let_def)
    next
      case (Inr v)
      obtain m g4 where v: "v = (m, g4)" by (cases v) auto
      from np_random_choice_Inr [OF Inr [unfolded v]] ent
      have "m \<in> {''PE'', ''PP'', ''PS'', ''PVC''}" by auto
      from material_densities_known [OF this] obtain dn where "material_densities m = Some dn"
        by auto
      with Inr v show ?thesis
        by (simp add: gen_piece_def st d Some r u ms Let_def)
    qed
  qed
qed

lemma gen_pieces_no_KeyError:
  assumes "plastic_materials sc pt \<noteq> None"
  shows "gen_pieces ops k W H boat_pos boat_box centered sc pt st \<noteq> Some (Inl KeyError)"
proof (induction k arbitrary: st)
  case 0
  show ?case by simp
next
  case (Suc k)
  show ?case
    using gen_piece_no_KeyError [OF assms, of ops W H boat_pos boat_box centered st] Suc
    by (auto simp: then_do_def split: option.splits sum.splits)
qed

lemma round_n_pieces_Inl:
  "round_n_pieces n_pieces g = Inl e \<Longrightarrow> e = ValueError \<or> e = IndexError"
  unfolding round_n_pieces_def by (rule np_random_choice_Inl)

lemma gen_bucket_no_KeyError:
  "gen_bucket ops W H boat_pos boat_box centered mean_scale sc pt st \<noteq> Some (Inl KeyError)"
proof (cases "0 < bucket_n_pieces W H mean_scale sc pt")
  case False
  then show ?thesis by (simp add: gen_bucket_skips)
next
  case True
  then have ms: "plastic_materials sc pt \<noteq> None"
    by (simp add: bucket_n_pieces_pos_iff plastic_materials_present)
  obtain pieces g where st: "st = (pieces, g)" by (cases st) auto
  show ?thesis
  proof (cases "round_n_pieces (bucket_n_pieces W H mean_scale sc pt) g")
    case (Inl e)
    with round_n_pieces_Inl [OF Inl] True show ?thesis
      by (auto simp: gen_bucket_def st Let_def)
  next
    case (Inr v)
    obtain n g1 where v: "v = (n, g1)" by (cases v) auto
    from gen_pieces_no_KeyError [OF ms, of ops "nat n" W H boat_pos boat_box centered "(pieces, 0, g1)"]
    show ?thesis using True Inr v
      by (auto simp: gen_bucket_def st Let_def then_do_def split: option.splits sum.splits)
  qed
qed

lemma for_each_no_error:
  assumes "\<And>v s. v \<in> set vs \<Longrightarrow> body v s \<noteq> Some (Inl e)"
  shows "for_each body vs st \<noteq> Some (Inl e)"
  using assms
proof (induction vs arbitrary: st)
  case Nil
  show ?case by simp
next
  case (Cons v vs)
  then show ?case
    by (auto simp: then_do_def split: option.splits sum.splits)
qed

lemma generate_trash_no_KeyError:
  "generate_trash ops W H boat_pos boat_box centered mean_scale relevant_size_classes False g
     \<noteq> Some (Inl KeyError)"
  unfolding generate_trash_def
  by (simp only: if_False) (intro for_each_no_error gen_bucket_no_KeyError)

section \<open>Buckets with zero number concentration\<close>

text \<open>C8: a bucket whose number concentration is zero leaves the list of pieces and both
  generators as they are, whatever the scale, the width and the height, and raises
  nothing, although the material table may have no entry for it; the pairs without an
  entry in \<open>plastic_materials\<close> are exactly MACRO/P, MEGA/P and MEGA/F, and each of them has
  number concentration zero; so the stochastic path never raises \<open>KeyError\<close>.\<close>

theorem zero_concentration_bucket_skipped:
  "(snd (mean_plastic_concentration sc pt) = 0
      \<longrightarrow> gen_bucket ops W H boat_pos boat_box centered mean_scale sc pt (pieces, g)
            = Some (Inr (pieces, g)))
   \<and> (plastic_materials sc pt = None
        \<longleftrightarrow> (sc, pt) \<in> {(MACRO, PT_P), (MEGA, PT_P), (MEGA, PT_F)})
   \<and> (plastic_materials sc pt = None \<longrightarrow> snd (mean_plastic_concentration sc pt) = 0)
   \<and> generate_trash ops W H boat_pos boat_box centered mean_scale relevant_size_classes False g
        \<noteq> Some (Inl KeyError)"
proof (intro conjI impI)
  assume "snd (mean_plastic_concentration sc pt) = 0"
  then have "bucket_n_pieces W H mean_scale sc pt \<le> 0" by (simp add: bucket_n_pieces_def)
  then show "gen_bucket ops W H boat_pos boat_box centered mean_scale sc pt (pieces, g)
            = Some (Inr (pieces, g))"
    by (rule gen_bucket_skips)
next
  show "plastic_materials sc pt = None
        \<longleftrightarrow> (sc, pt) \<in> {(MACRO, PT_P), (MEGA, PT_P), (MEGA, PT_F)}"
    by (cases sc; cases pt) simp_all
next
  assume "plastic_materials sc pt = None"
  then show "snd (mean_plastic_concentration sc pt) = 0"
    by (cases sc; cases pt) simp_all
next
  show "generate_trash ops W H boat_pos boat_box centered mean_scale relevant_size_classes False g
        \<noteq> Some (Inl KeyError)"
    by (rule generate_trash_no_KeyError)
qed

theorem zero_concentration_bucket_skipped_witness:
  "snd (mean_plastic_concentration MEGA PT_P) = 0
   \<and> plastic_materials MEGA PT_P = None
   \<and> gen_bucket exact_ops 1000 1000 (0, 0) (10, 10) False 7 MEGA PT_P ([], fixed_rng)
        = Some (Inr ([], fixed_rng))
   \<and> generate_trash exact_ops 1000 1000 (0, 0) (10, 10) False (2 / 5) [MEGA] False rejecting_rng
        \<noteq> Some (Inl KeyError)"
  using zero_concentration_bucket_skipped
    [of MEGA PT_P exact_ops 1000 1000 "(0, 0)" "(10, 10)" False 7 "[]" fixed_rng]
    zero_concentration_bucket_skipped
    [of MEGA PT_P exact_ops 1000 1000 "(0, 0)" "(10, 10)" False "2 / 5" "[]" rejecting_rng "[MEGA]"]
  by simp

section \<open>Width and height that are not positive\<close>

text \<open>C7, as stated: a width that is zero or negative makes the call raise a configuration
  error. This fails: the code has no check of width and height; with width 0 every target
  count is 0, every bucket is skipped and the call returns the empty list.\<close>

theorem nonpositive_width_returns_empty:
  "generate_trash exact_ops 0 100 (0, 0) (0, 0) False default_mean_scale [MESO, MACRO, MEGA] False
     fixed_rng = Some (Inr ([], fixed_rng))"
  by (simp add: generate_trash_def all_plastic_types_def gen_bucket_skips bucket_n_pieces_def)

text \<open>C7, amended: the code checks neither the width nor the height and has no
  configuration error to raise. On the stochastic path, whenever
  \<open>mean_scale * (W / 1000) * (H / 1000)\<close> is not positive (so when the width or the height
  is zero, and when exactly one of them is negative under a positive scale), no bucket has
  a positive target count: the call returns the empty list, raises nothing and leaves both
  generators untouched.\<close>

theorem no_configuration_error:
  assumes area: "mean_scale * (W / 1000) * (H / 1000) \<le> 0"
  shows "generate_trash ops W H boat_pos boat_box centered mean_scale relevant_size_classes
           False g = Some (Inr ([], g))"
proof -
  have skip: "bucket_n_pieces W H mean_scale sc pt \<le> 0" for sc pt
  proof -
    have "bucket_n_pieces W H mean_scale sc pt
        = snd (mean_plastic_concentration sc pt) * (mean_scale * (W / 1000) * (H / 1000))"
      by (simp add: bucket_n_pieces_def)
    moreover have "snd (mean_plastic_concentration sc pt) * (mean_scale * (W / 1000) * (H / 1000)) \<le> 0"
      by (rule mult_nonneg_nonpos [OF concentration_nonneg area])
    ultimately show ?thesis by (simp only:)
  qed
  have inner: "for_each (gen_bucket ops W H boat_pos boat_box centered mean_scale sc) pts st
                 = Some (Inr st)" for sc pts st
    by (induction pts) (simp_all add: gen_bucket_skips skip)
  have "for_each (\<lambda>sc. for_each (gen_bucket ops W H boat_pos boat_box centered mean_scale sc)
                  all_plastic_types) scs st = Some (Inr st)" for scs st
    by (induction scs) (simp_all add: inner)
  then show ?thesis
    by (simp add: generate_trash_def)
qed

theorem no_configuration_error_witness:
  "default_mean_scale * (0 / 1000) * (100 / 1000) \<le> 0
   \<and> generate_trash exact_ops 0 100 (0, 0) (0, 0) False default_mean_scale [MESO, MACRO, MEGA]
       False fixed_rng = Some (Inr ([], fixed_rng))
   \<and> default_mean_scale * (- 100 / 1000) * (100 / 1000) \<le> 0
   \<and> generate_trash exact_ops (- 100) 100 (0, 0) (10, 10) False default_mean_scale
       [MESO, MACRO, MEGA] False rejecting_rng = Some (Inr ([], rejecting_rng))"
proof -
  have z: "default_mean_scale * (0 / 1000) * (100 / 1000) \<le> 0" by simp
  have n: "default_mean_scale * (- 100 / 1000) * (100 / 1000) \<le> 0"
    by (simp add: default_mean_scale_def total_mean_plastic_concentration_def)
  from no_configuration_error [OF z] no_configuration_error [OF n] z n
  show ?thesis by blast
qed

section \<open>The example path evaluated\<close>

lemma volume_antiderivative_deriv:
  "(volume_antiderivative has_real_derivative (10 powr u) ^ 3) (at u)"
  unfolding volume_antiderivative_def
  by (auto intro!: derivative_eq_intros simp: power3_eq_cube power2_eq_square)

lemma thousand_powr: "(1000 :: real) powr v = (10 powr v) ^ 3"
proof -
  have t: "(1000 :: real) = 10 powr 3" by simp
  have "(1000 :: real) powr v = (10 powr 3) powr v" by (simp only: t)
  also have "\<dots> = 10 powr (3 * v)" by (simp only: powr_powr)
  also have "\<dots> = 10 powr (v * 3)" by (simp only: mult.commute)
  also have "\<dots> = (10 powr v) powr 3" by (simp only: powr_powr)
  also have "\<dots> = (10 powr v) ^ 3" by simp
  finally show ?thesis .
qed

lemma log_thousand: "log 10 (1000 :: real) = 3"
  using log_nat_power [of 10 10 3] by simp

lemma thousand_powr_cube: "(10 ^ 3 :: real) powr v = (10 powr v) ^ 3"
  using thousand_powr [of v] by simp

lemma log_thousand_cube: "log 10 (10 ^ 3 :: real) = 3"
  using log_thousand by simp

lemma mean_volume_algebra:
  fixes L d A B :: real
  assumes "L \<noteq> 0"
  shows "1 / d * (A - B) / 3 = L * ((A / (3 * L) - B / (3 * L)) / d)"
  using assms by (cases "d = 0") (simp_all add: field_simps)

lemma avg_vol_per_piece_eq:
  "avg_vol_per_piece sc = ln 10 * spec_mean_volume sc"
  unfolding avg_vol_per_piece_def spec_mean_volume_def volume_antiderivative_def Let_def
    thousand_powr_cube log_thousand_cube
  by (rule mean_volume_algebra) simp

lemma mega_volume_algebra:
  fixes l :: real
  assumes "l \<noteq> 0"
  shows "1 / (l - (- l)) * (2 ^ 3 - (1 / 2) ^ 3) / 3 = 21 / (16 * l)"
  using assms by (simp add: field_simps)

lemma avg_vol_per_piece_MEGA: "avg_vol_per_piece MEGA = 21 / (16 * log 10 2)"
proof -
  have a: "log 10 (50 / 100 :: real) = - log 10 2"
    using log_divide [of 10 1 2] by simp
  have b: "log 10 (200 / 100 :: real) = log 10 2" by simp
  have p: "(10 powr log 10 2 :: real) = 2" by simp
  have q: "(10 powr (- log 10 2) :: real) = 1 / 2" by (simp add: powr_minus divide_simps)
  have "0 < log 10 (2 :: real)" by (subst zero_less_log_cancel_iff) simp_all
  then have l: "log 10 (2 :: real) \<noteq> 0" by (rule less_imp_neq [symmetric])
  show ?thesis
    unfolding avg_vol_per_piece_def Let_def size_ranges.simps fst_conv snd_conv
      a b thousand_powr_cube log_thousand_cube p q
    by (rule mega_volume_algebra [OF l])
qed

lemma build_avg_density_result:
  "\<exists>tab. build_avg_density material_keys Map.empty = Inr tab
         \<and> tab (MEGA, PT_N) = Some 826.05"
  by (simp add: material_keys_def all_size_classes_def all_plastic_types_def
      material_densities_def)

lemma example_mass_value:
  fixes sz :: real
  shows "sz ^ 3 / (avg_vol_per_piece MEGA * bucket_n_pieces 100 100 default_mean_scale MEGA PT_N)
           * bucket_total_mass 100 100 default_mean_scale MEGA PT_N
         = sz ^ 3 * (34256 / 3465) * log 10 2"
proof -
  have "0 < log 10 (2 :: real)" by (subst zero_less_log_cancel_iff) simp_all
  then have l: "log 10 (2 :: real) \<noteq> 0" by (rule less_imp_neq [symmetric])
  show ?thesis
    using l
    by (simp add: avg_vol_per_piece_MEGA bucket_n_pieces_def bucket_total_mass_def
        default_mean_scale_def total_mean_plastic_concentration_def field_simps)
qed

lemma example_total_vol_nonzero:
  "avg_vol_per_piece MEGA * bucket_n_pieces 100 100 default_mean_scale MEGA PT_N \<noteq> 0"
proof -
  have "0 < log 10 (2 :: real)" by (subst zero_less_log_cancel_iff) simp_all
  then have l: "log 10 (2 :: real) \<noteq> 0" by (rule less_imp_neq [symmetric])
  show ?thesis
    using l
    by (simp add: avg_vol_per_piece_MEGA bucket_n_pieces_def
        default_mean_scale_def total_mean_plastic_concentration_def)
qed

lemma example_fill_result:
  assumes "avg_density (MEGA, PT_N) = Some d"
  shows "example_fill 100 100 default_mean_scale avg_density (example_piece px py sz)
     = Inr \<lparr>trash_x = px, trash_y = py, trash_size = sz,
            trash_mass = sz ^ 3 * (34256 / 3465) * log 10 2, trash_density = d,
            trash_size_class = MEGA, trash_plastic_type = PT_N\<rparr>"
proof -
  have "example_fill 100 100 default_mean_scale avg_density (example_piece px py sz)
     = Inr \<lparr>trash_x = px, trash_y = py, trash_size = sz,
            trash_mass = sz ^ 3
              / (avg_vol_per_piece MEGA * bucket_n_pieces 100 100 default_mean_scale MEGA PT_N)
              * bucket_total_mass 100 100 default_mean_scale MEGA PT_N,
            trash_density = d, trash_size_class = MEGA, trash_plastic_type = PT_N\<rparr>"
    using assms example_total_vol_nonzero
    by (simp add: example_fill_def example_piece_def Let_def)
  then show ?thesis by (simp only: example_mass_value)
qed

lemma example_run:
  "generate_trash ops 100 100 (0, 0) (0, 0) False default_mean_scale relevant_size_classes True g
     = Some (Inr (map example_result
          [(100, 16, 0.75), (110, 100, 0.75), (90, 100, 0.75), (115, 130, 1.00),
           (88, 170, 0.75), (115, 210, 2.50), (100, 240, 0.50)], g))"
proof -
  from build_avg_density_result obtain tab where
    tab: "build_avg_density material_keys Map.empty = Inr tab"
         "tab (MEGA, PT_N) = Some 826.05"
    by blast
  show ?thesis
    by (simp add: generate_trash_def tab(1) example_pieces_def
        example_fill_result [where avg_density = tab, OF tab(2)] example_result_def)
qed

lemma ln_ten_not_one: "ln (10 :: real) \<noteq> 1"
proof
  assume "ln (10 :: real) = 1"
  then have "exp (ln (10 :: real)) = exp 1" by simp
  then have "(10 :: real) = exp 1" by simp
  with exp_le show False by simp
qed

text \<open>C3: at width 100, height 100 and the default scale the example path returns the
  seven pieces of the claim, at the positions and with the sizes of the claim, all MEGA/N,
  with density \<open>920 * 0.8 + 900.5 * 0.1 = 826.05\<close>, whatever the state of the generators,
  which it leaves untouched. The mass of a piece is
  \<open>size^3 / (avg_vol_per_piece * n_pieces_for_type) * total_mass_for_type\<close>; but
  \<open>avg_vol_per_piece\<close> is not the integral of the size distribution: the code divides by
  \<open>math.log10(10**3) = 3\<close> where the integral has \<open>ln(10**3)\<close>, so its mean volume is
  \<open>ln 10\<close> times the integral and every mass is the claimed mass divided by \<open>ln 10\<close>.\<close>

theorem example_scenario_masses:
  "generate_trash ops 100 100 (0, 0) (0, 0) False default_mean_scale relevant_size_classes True g
     = Some (Inr (map (\<lambda>(px, py, sz).
          \<lparr>trash_x = px, trash_y = py, trash_size = sz,
           trash_mass = sz ^ 3 * (34256 / 3465) * log 10 2, trash_density = 826.05,
           trash_size_class = MEGA, trash_plastic_type = PT_N\<rparr>)
          [(100, 16, 0.75), (110, 100, 0.75), (90, 100, 0.75), (115, 130, 1.00),
           (88, 170, 0.75), (115, 210, 2.50), (100, 240, 0.50)], g))
   \<and> sz ^ 3 * (34256 / 3465) * log 10 2
       = sz ^ 3 / (avg_vol_per_piece MEGA * bucket_n_pieces 100 100 default_mean_scale MEGA PT_N)
           * bucket_total_mass 100 100 default_mean_scale MEGA PT_N
   \<and> avg_vol_per_piece MEGA = ln 10 * spec_mean_volume MEGA
   \<and> ln (10 :: real) \<noteq> 1"
proof (intro conjI)
  have "example_result = (\<lambda>(px, py, sz).
          \<lparr>trash_x = px, trash_y = py, trash_size = sz,
           trash_mass = sz ^ 3 * (34256 / 3465) * log 10 2, trash_density = 826.05,
           trash_size_class = MEGA, trash_plastic_type = PT_N\<rparr>)"
    by (rule ext) (simp add: example_result_def)
  with example_run [of ops relevant_size_classes g]
  show "generate_trash ops 100 100 (0, 0) (0, 0) False default_mean_scale relevant_size_classes
          True g
     = Some (Inr (map (\<lambda>(px, py, sz).
          \<lparr>trash_x = px, trash_y = py, trash_size = sz,
           trash_mass = sz ^ 3 * (34256 / 3465) * log 10 2, trash_density = 826.05,
           trash_size_class = MEGA, trash_plastic_type = PT_N\<rparr>)
          [(100, 16, 0.75), (110, 100, 0.75), (90, 100, 0.75), (115, 130, 1.00),
           (88, 170, 0.75), (115, 210, 2.50), (100, 240, 0.50)], g))"
    by (simp only:)
next
  show "sz ^ 3 * (34256 / 3465) * log 10 2
       = sz ^ 3 / (avg_vol_per_piece MEGA * bucket_n_pieces 100 100 default_mean_scale MEGA PT_N)
           * bucket_total_mass 100 100 default_mean_scale MEGA PT_N"
    by (rule example_mass_value [symmetric])
next
  show "avg_vol_per_piece MEGA = ln 10 * spec_mean_volume MEGA"
    by (rule avg_vol_per_piece_eq)
next
  show "ln (10 :: real) \<noteq> 1" by (rule ln_ten_not_one)
qed

section \<open>Two runs on the same draws\<close>

lemma same_draws_refl [simp]: "same_draws g g"
  by (simp add: same_draws_def)











lemma res_rel_None [simp]: "res_rel R None None"
  by (simp add: res_rel_def)

lemma res_rel_Inl [simp]: "res_rel R (Some (Inl e)) (Some (Inl e))"
  by (simp add: res_rel_def)

lemma res_rel_Inr [simp]: "res_rel R (Some (Inr v)) (Some (Inr w)) = R v w"
  by (simp add: res_rel_def)













end
